theory Spec2Isabelle
  imports Complex_Main
begin

section \<open>Frame and spatial algebra\<close>

text \<open>
  Modelled from the spec: the scalar type \<^verbatim>\<open>Real\<close> of the external math library
  (SimTKcommon), which is not part of the sources. It is read as the field of real
  numbers: every operator below is the exact-arithmetic counterpart of the inline C++
  expression. The one place where the arithmetic of the source can leave the finite
  numbers without any input doing so, a division by a zero distance or speed, is kept
  visible: a quotient is a value of type \<open>'a fp\<close>, and \<open>NaN\<close> stands for the non-finite
  outcome (it is also the sentinel \<^verbatim>\<open>Vec3::getNaN()\<close> / \<^verbatim>\<open>NaN\<close> that the unimplemented
  operators name).
\<close>

datatype 'a fp = NaN | Finite 'a

text \<open>
  Modelled from the spec: the class \<^verbatim>\<open>Vec3\<close> of the external math library, with its
  componentwise sum, difference and negation.
\<close>

datatype Vec3 = Vec3 real real real

instantiation Vec3 :: "{zero, plus, minus, uminus}"
begin

definition zero_Vec3 :: Vec3 where
  "zero_Vec3 = Vec3 0 0 0"

fun plus_Vec3 :: "Vec3 \<Rightarrow> Vec3 \<Rightarrow> Vec3" where
  "plus_Vec3 (Vec3 a b c) (Vec3 d e f) = Vec3 (a + d) (b + e) (c + f)"

fun minus_Vec3 :: "Vec3 \<Rightarrow> Vec3 \<Rightarrow> Vec3" where
  "minus_Vec3 (Vec3 a b c) (Vec3 d e f) = Vec3 (a - d) (b - e) (c - f)"

fun uminus_Vec3 :: "Vec3 \<Rightarrow> Vec3" where
  "uminus_Vec3 (Vec3 a b c) = Vec3 (- a) (- b) (- c)"

instance ..

end

text \<open>
  Modelled from the spec: the operators of \<^verbatim>\<open>Vec3\<close> in the external math library that the
  header uses: \<^verbatim>\<open>dot(a,b)\<close>, the cross product \<^verbatim>\<open>a % b\<close>, \<^verbatim>\<open>s*v\<close> and \<^verbatim>\<open>v.norm()\<close>.
\<close>

fun dot :: "Vec3 \<Rightarrow> Vec3 \<Rightarrow> real" where
  "dot (Vec3 a b c) (Vec3 d e f) = a * d + b * e + c * f"

fun cross :: "Vec3 \<Rightarrow> Vec3 \<Rightarrow> Vec3" where
  "cross (Vec3 a b c) (Vec3 d e f) = Vec3 (b * f - c * e) (c * d - a * f) (a * e - b * d)"

fun scale :: "real \<Rightarrow> Vec3 \<Rightarrow> Vec3" where
  "scale k (Vec3 a b c) = Vec3 (k * a) (k * b) (k * c)"

definition norm_Vec3 :: "Vec3 \<Rightarrow> real" where
  "norm_Vec3 v = sqrt (dot v v)"

text \<open>
  Modelled from the spec: \<^verbatim>\<open>v/d\<close> of the external math library, for a vector and a
  scalar. IEEE division by zero does not trap: it yields infinities or NaN, which is the
  outcome \<open>NaN\<close> here.
\<close>

fun div_Vec3 :: "Vec3 \<Rightarrow> real \<Rightarrow> Vec3 fp" where
  "div_Vec3 (Vec3 a b c) d = (if d = 0 then NaN else Finite (Vec3 (a / d) (b / d) (c / d)))"

text \<open>
  Modelled from the spec: the classes \<^verbatim>\<open>Mat33\<close> and \<^verbatim>\<open>Rotation\<close> of the external math
  library: a 3x3 matrix, by rows, with its products and its transpose \<^verbatim>\<open>~R\<close>. A
  \<^verbatim>\<open>Rotation\<close> is such a matrix, kept orthonormal by its class.
\<close>

datatype Mat33 = Mat33 Vec3 Vec3 Vec3

type_synonym Rotation = Mat33

definition identity_Mat33 :: Mat33 where
  "identity_Mat33 = Mat33 (Vec3 1 0 0) (Vec3 0 1 0) (Vec3 0 0 1)"

fun mul_Mat33_Vec3 :: "Mat33 \<Rightarrow> Vec3 \<Rightarrow> Vec3" where
  "mul_Mat33_Vec3 (Mat33 r1 r2 r3) v = Vec3 (dot r1 v) (dot r2 v) (dot r3 v)"

fun transpose_Mat33 :: "Mat33 \<Rightarrow> Mat33" where
  "transpose_Mat33 (Mat33 (Vec3 a b c) (Vec3 d e f) (Vec3 g h i)) =
     Mat33 (Vec3 a d g) (Vec3 b e h) (Vec3 c f i)"

fun mul_Mat33 :: "Mat33 \<Rightarrow> Mat33 \<Rightarrow> Mat33" where
  "mul_Mat33 (Mat33 r1 r2 r3) m =
     (case transpose_Mat33 m of
        Mat33 c1 c2 c3 \<Rightarrow>
          Mat33 (Vec3 (dot r1 c1) (dot r1 c2) (dot r1 c3))
                (Vec3 (dot r2 c1) (dot r2 c2) (dot r2 c3))
                (Vec3 (dot r3 c1) (dot r3 c2) (dot r3 c3)))"

text \<open>
  Modelled from the spec: the invariant of the class \<^verbatim>\<open>Rotation\<close>: the transpose is the
  inverse, on both sides (the columns are orthonormal, and so are the rows).
\<close>

definition is_Rotation :: "Mat33 \<Rightarrow> bool" where
  "is_Rotation m =
     (mul_Mat33 (transpose_Mat33 m) m = identity_Mat33 \<and>
      mul_Mat33 m (transpose_Mat33 m) = identity_Mat33)"

text \<open>
  Modelled from the spec: the class \<^verbatim>\<open>Transform\<close> of the external math library
  (SimTKcommon), which is not part of the sources: a rotation \<^verbatim>\<open>R()\<close> and a translation
  \<^verbatim>\<open>T()\<close>, the default constructor giving the identity, \<^verbatim>\<open>X*p\<close> relocating a station,
  \<^verbatim>\<open>~X\<close> the inverse and \<^verbatim>\<open>X*Y\<close> the composition.
\<close>

datatype Transform = Transform (xR: Rotation) (xT: Vec3)

definition identity_Transform :: Transform where
  "identity_Transform = Transform identity_Mat33 0"

definition apply_Transform :: "Transform \<Rightarrow> Vec3 \<Rightarrow> Vec3" where
  "apply_Transform X p = mul_Mat33_Vec3 (xR X) p + xT X"

definition inverse_Transform :: "Transform \<Rightarrow> Transform" where
  "inverse_Transform X =
     Transform (transpose_Mat33 (xR X)) (- mul_Mat33_Vec3 (transpose_Mat33 (xR X)) (xT X))"

definition compose_Transform :: "Transform \<Rightarrow> Transform \<Rightarrow> Transform" where
  "compose_Transform X Y =
     Transform (mul_Mat33 (xR X) (xR Y)) (mul_Mat33_Vec3 (xR X) (xT Y) + xT X)"

text \<open>
  Modelled from the spec: the class \<^verbatim>\<open>SpatialVec\<close> of the external math library: a pair,
  element 0 the angular part and element 1 the linear part.
\<close>

type_synonym SpatialVec = "Vec3 \<times> Vec3"

section \<open>Errors\<close>

text \<open>
  Modelled from the spec: the failures of an operation, which the source raises as
  exceptions of the external library: a read or write at the wrong realization stage, a
  vector of the wrong size, an index outside a mobilizer's partition, and a failed
  assertion with the text of its condition and its message. An operation returns either
  one of them or its value, and the first failure ends a sequence of operations.
\<close>

datatype error =
    StageViolation
  | DimensionMismatch
  | IndexOutOfRange
  | AssertFailed string string

fun bindE :: "error + 'a \<Rightarrow> ('a \<Rightarrow> error + 'b) \<Rightarrow> error + 'b" where
  "bindE (Inl e) f = Inl e"
| "bindE (Inr x) f = f x"

section \<open>The State and its realization stage\<close>

text \<open>
  Modelled from the spec: the class \<^verbatim>\<open>Stage\<close> of the external library, an ordered
  enumeration; the header names its values as \<^verbatim>\<open>Stage::Model\<close>, \<^verbatim>\<open>Stage::Position\<close> and so
  on.
\<close>

datatype Stage =
  Empty | Topology | Model | Instance | Time | Position | Velocity | Dynamics | Acceleration

fun stage_rank :: "Stage \<Rightarrow> nat" where
  "stage_rank Empty = 0"
| "stage_rank Topology = 1"
| "stage_rank Model = 2"
| "stage_rank Instance = 3"
| "stage_rank Time = 4"
| "stage_rank Position = 5"
| "stage_rank Velocity = 6"
| "stage_rank Dynamics = 7"
| "stage_rank Acceleration = 8"

text \<open>
  A \<^verbatim>\<open>MobilizedBody\<close> handle is identified with its \<^verbatim>\<open>MobilizedBodyIndex\<close> in the one
  matter subsystem that owns it; Ground is body 0 of that subsystem.
\<close>

type_synonym MobilizedBody = nat

text \<open>
  Modelled from the spec: the class \<^verbatim>\<open>State\<close>, which is not part of the sources: the
  realization stage marker, the generalized coordinates and speeds with the contiguous
  partition of each mobilizer (first slot and count), and the cache of the Ground-frame
  transform, spatial velocity and spatial acceleration of every body.
\<close>

record State =
  stage :: Stage
  qStart :: "MobilizedBody \<Rightarrow> nat"
  numQ :: "MobilizedBody \<Rightarrow> nat"
  uStart :: "MobilizedBody \<Rightarrow> nat"
  numU :: "MobilizedBody \<Rightarrow> nat"
  stateQ :: "real list"
  stateU :: "real list"
  bodyTransformCache :: "MobilizedBody \<Rightarrow> Transform"
  bodyVelocityCache :: "MobilizedBody \<Rightarrow> SpatialVec"
  bodyAccelerationCache :: "MobilizedBody \<Rightarrow> SpatialVec"

text \<open>
  Modelled from the spec: the test that a State has been realized to a stage or higher.
\<close>

definition realizedTo :: "State \<Rightarrow> Stage \<Rightarrow> bool" where
  "realizedTo s g = (stage_rank g \<le> stage_rank (stage s))"

text \<open>
  Modelled from the spec: the body of the response \<^verbatim>\<open>getBodyTransform\<close>, which the header
  only declares (as available at Position stage): a reader checks that the marker has
  reached the stage of the quantity and returns the cached value, failing with
  \<open>StageViolation\<close> otherwise.
\<close>

definition getBodyTransform :: "State \<Rightarrow> MobilizedBody \<Rightarrow> error + Transform" where
  "getBodyTransform s B =
     (if realizedTo s Position then Inr (bodyTransformCache s B) else Inl StageViolation)"

text \<open>
  Modelled from the spec: the body of the response \<^verbatim>\<open>getBodyVelocity\<close>, which the header
  only declares (as available at Velocity stage), with the same check.
\<close>

definition getBodyVelocity :: "State \<Rightarrow> MobilizedBody \<Rightarrow> error + SpatialVec" where
  "getBodyVelocity s B =
     (if realizedTo s Velocity then Inr (bodyVelocityCache s B) else Inl StageViolation)"

text \<open>
  Modelled from the spec: the body of the response \<^verbatim>\<open>getBodyAcceleration\<close>, which the
  header only declares (as available at Acceleration stage), with the same check.
\<close>

definition getBodyAcceleration :: "State \<Rightarrow> MobilizedBody \<Rightarrow> error + SpatialVec" where
  "getBodyAcceleration s B =
     (if realizedTo s Acceleration then Inr (bodyAccelerationCache s B)
      else Inl StageViolation)"

text \<open>The inline responses of the header, each a projection of one of the three above.\<close>

definition getBodyRotation :: "State \<Rightarrow> MobilizedBody \<Rightarrow> error + Rotation" where
  "getBodyRotation s B = bindE (getBodyTransform s B) (\<lambda>X. Inr (xR X))"

definition getBodyOriginLocation :: "State \<Rightarrow> MobilizedBody \<Rightarrow> error + Vec3" where
  "getBodyOriginLocation s B = bindE (getBodyTransform s B) (\<lambda>X. Inr (xT X))"

definition getBodyAngularVelocity :: "State \<Rightarrow> MobilizedBody \<Rightarrow> error + Vec3" where
  "getBodyAngularVelocity s B = bindE (getBodyVelocity s B) (\<lambda>V. Inr (fst V))"

definition getBodyOriginVelocity :: "State \<Rightarrow> MobilizedBody \<Rightarrow> error + Vec3" where
  "getBodyOriginVelocity s B = bindE (getBodyVelocity s B) (\<lambda>V. Inr (snd V))"

definition getBodyAngularAcceleration :: "State \<Rightarrow> MobilizedBody \<Rightarrow> error + Vec3" where
  "getBodyAngularAcceleration s B = bindE (getBodyAcceleration s B) (\<lambda>A. Inr (fst A))"

definition getBodyOriginAcceleration :: "State \<Rightarrow> MobilizedBody \<Rightarrow> error + Vec3" where
  "getBodyOriginAcceleration s B = bindE (getBodyAcceleration s B) (\<lambda>A. Inr (snd A))"

section \<open>Basic operators\<close>

definition locateBodyPointOnGround :: "State \<Rightarrow> MobilizedBody \<Rightarrow> Vec3 \<Rightarrow> error + Vec3" where
  "locateBodyPointOnGround s B locationOnB =
     bindE (getBodyTransform s B) (\<lambda>X_GB. Inr (apply_Transform X_GB locationOnB))"

definition locateGroundPointOnBody :: "State \<Rightarrow> MobilizedBody \<Rightarrow> Vec3 \<Rightarrow> error + Vec3" where
  "locateGroundPointOnBody s B locationOnG =
     bindE (getBodyTransform s B)
       (\<lambda>X_GB. Inr (apply_Transform (inverse_Transform X_GB) locationOnG))"

definition expressBodyVectorInGround :: "State \<Rightarrow> MobilizedBody \<Rightarrow> Vec3 \<Rightarrow> error + Vec3" where
  "expressBodyVectorInGround s B vectorInB =
     bindE (getBodyRotation s B) (\<lambda>R_GB. Inr (mul_Mat33_Vec3 R_GB vectorInB))"

definition calcBodyFixedPointVelocityInGround ::
  "State \<Rightarrow> MobilizedBody \<Rightarrow> Vec3 \<Rightarrow> error + Vec3" where
  "calcBodyFixedPointVelocityInGround s B stationOnB =
     bindE (getBodyAngularVelocity s B) (\<lambda>w.
     bindE (getBodyOriginVelocity s B) (\<lambda>v.
     bindE (expressBodyVectorInGround s B stationOnB) (\<lambda>r.
     Inr (v + cross w r))))"

text \<open>The two reference parameters of the source are the components of the result.\<close>

definition calcBodyFixedPointLocationAndVelocityInGround ::
  "State \<Rightarrow> MobilizedBody \<Rightarrow> Vec3 \<Rightarrow> error + Vec3 \<times> Vec3" where
  "calcBodyFixedPointLocationAndVelocityInGround s B locationOnB =
     bindE (getBodyOriginLocation s B) (\<lambda>r_G_OB.
     bindE (expressBodyVectorInGround s B locationOnB) (\<lambda>r.
     bindE (getBodyAngularVelocity s B) (\<lambda>w.
     bindE (getBodyOriginVelocity s B) (\<lambda>v.
     Inr (r_G_OB + r, v + cross w r)))))"

definition calcBodyFixedPointAccelerationInGround ::
  "State \<Rightarrow> MobilizedBody \<Rightarrow> Vec3 \<Rightarrow> error + Vec3" where
  "calcBodyFixedPointAccelerationInGround s B stationOnB =
     bindE (getBodyAngularVelocity s B) (\<lambda>w.
     bindE (getBodyAngularAcceleration s B) (\<lambda>b.
     bindE (getBodyOriginAcceleration s B) (\<lambda>a.
     bindE (expressBodyVectorInGround s B stationOnB) (\<lambda>r.
     Inr (a + cross b r + cross w (cross w r))))))"

definition calcBodyFixedPointLocationVelocityAndAccelerationInGround ::
  "State \<Rightarrow> MobilizedBody \<Rightarrow> Vec3 \<Rightarrow> error + Vec3 \<times> Vec3 \<times> Vec3" where
  "calcBodyFixedPointLocationVelocityAndAccelerationInGround s B locationOnB =
     bindE (getBodyRotation s B) (\<lambda>R_GB.
     bindE (getBodyOriginLocation s B) (\<lambda>r_G_OB.
     (let r = mul_Mat33_Vec3 R_GB locationOnB in
     bindE (getBodyAngularVelocity s B) (\<lambda>w.
     bindE (getBodyOriginVelocity s B) (\<lambda>v.
     bindE (getBodyAngularAcceleration s B) (\<lambda>b.
     bindE (getBodyOriginAcceleration s B) (\<lambda>a.
     (let wXr = cross w r in
      Inr (r_G_OB + r, v + wXr, a + cross b r + cross w wXr)))))))))"

section \<open>High-level operators\<close>

text \<open>
  Modelled from the spec: the body of \<^verbatim>\<open>isSameMobilizedBody\<close>, which the header only
  declares: two (non-empty) handles are the same mobilized body when they refer to the
  same implementation object.
\<close>

definition isSameMobilizedBody :: "MobilizedBody \<Rightarrow> MobilizedBody \<Rightarrow> bool" where
  "isSameMobilizedBody B mBody = (B = mBody)"

text \<open>
  Modelled from the spec: the body of \<^verbatim>\<open>isGround\<close>, which the header only declares: a
  body is Ground when it is body 0 of its matter subsystem.
\<close>

definition isGround :: "MobilizedBody \<Rightarrow> bool" where
  "isGround B = (B = 0)"

definition calcBodyTransformFromBody ::
  "State \<Rightarrow> MobilizedBody \<Rightarrow> MobilizedBody \<Rightarrow> error + Transform" where
  "calcBodyTransformFromBody s B fromBodyA =
     (if isSameMobilizedBody B fromBodyA then Inr identity_Transform
      else if isGround fromBodyA then getBodyTransform s B
      else if isGround B then
        bindE (getBodyTransform s fromBodyA) (\<lambda>X_GA. Inr (inverse_Transform X_GA))
      else
        bindE (getBodyTransform s fromBodyA) (\<lambda>X_GA.
        bindE (getBodyTransform s B) (\<lambda>X_GB.
        Inr (compose_Transform (inverse_Transform X_GA) X_GB))))"

text \<open>
  Modelled from the spec: \<^verbatim>\<open>x/d\<close> for two scalars, with the same reading of a zero
  divisor as \<open>div_Vec3\<close>.
\<close>

definition div_Real :: "real \<Rightarrow> real \<Rightarrow> real fp" where
  "div_Real x d = (if d = 0 then NaN else Finite (x / d))"

definition calcFixedPointToPointDistanceTimeDerivative ::
  "State \<Rightarrow> MobilizedBody \<Rightarrow> Vec3 \<Rightarrow> MobilizedBody \<Rightarrow> Vec3 \<Rightarrow> error + real fp" where
  "calcFixedPointToPointDistanceTimeDerivative s B locationOnBodyB bodyA locationOnBodyA =
     (if isSameMobilizedBody B bodyA then Inr (Finite 0)
      else
        bindE (calcBodyFixedPointLocationAndVelocityInGround s B locationOnBodyB) (\<lambda>(rB, vB).
        bindE (calcBodyFixedPointLocationAndVelocityInGround s bodyA locationOnBodyA) (\<lambda>(rA, vA).
        (let r = rA - rB; v = vA - vB; d = norm_Vec3 r in
         if d = 0 then Inr (Finite (norm_Vec3 v))
         else Inr (map_fp (dot v) (div_Vec3 r d))))))"

definition calcFixedPointToPointDistance2ndTimeDerivative ::
  "State \<Rightarrow> MobilizedBody \<Rightarrow> Vec3 \<Rightarrow> MobilizedBody \<Rightarrow> Vec3 \<Rightarrow> error + real fp" where
  "calcFixedPointToPointDistance2ndTimeDerivative s B locationOnBodyB bodyA locationOnBodyA =
     (if isSameMobilizedBody B bodyA then Inr (Finite 0)
      else
        bindE (calcBodyFixedPointLocationVelocityAndAccelerationInGround s B locationOnBodyB)
          (\<lambda>(rB, vB, aB).
        bindE (calcBodyFixedPointLocationVelocityAndAccelerationInGround s bodyA locationOnBodyA)
          (\<lambda>(rA, vA, aA).
        (let r = rA - rB; v = vA - vB; a = aA - aB; d = norm_Vec3 r in
         if d = 0 then
           (let speed = norm_Vec3 v in
            if speed = 0 then Inr (Finite (norm_Vec3 a))
            else Inr (map_fp (dot a) (div_Vec3 v speed)))
         else
           Inr (case div_Vec3 r d of
                  NaN \<Rightarrow> NaN
                | Finite un \<Rightarrow>
                    (let vp = v - scale (dot v un) un in
                     map_fp (\<lambda>x. dot a un + x) (div_Real (dot vp v) d)))))))"

text \<open>
  Modelled from the spec: the macro \<^verbatim>\<open>SimTK_ASSERT_ALWAYS\<close> of the external library
  (SimTKcommon), which is not part of the sources: in every build it evaluates the
  condition and, when it is false, fails with an assertion error that carries the text of
  the condition and the message; only otherwise does the code after it run.
\<close>

definition SimTK_ASSERT_ALWAYS :: "bool \<Rightarrow> string \<Rightarrow> string \<Rightarrow> (error + 'a) \<Rightarrow> error + 'a" where
  "SimTK_ASSERT_ALWAYS cond condText msg rest =
     (if cond then rest else Inl (AssertFailed condText msg))"

text \<open>
  The truth value of a C string literal used as a condition: the literal decays to a
  pointer that is never null, whatever its characters are.
\<close>

definition literalAsCondition :: "string \<Rightarrow> bool" where
  "literalAsCondition lit = True"

definition calcBodyMovingPointVelocityInBody ::
  "State \<Rightarrow> MobilizedBody \<Rightarrow> Vec3 \<Rightarrow> Vec3 \<Rightarrow> MobilizedBody \<Rightarrow> error + Vec3 fp" where
  "calcBodyMovingPointVelocityInBody s B locationOnBodyB velocityOnBodyB inBodyA =
     SimTK_ASSERT_ALWAYS (\<not> literalAsCondition ''unimplemented method'')
       ''unimplemented method''
       ''MobilizedBody::calcBodyMovingPointVelocityInBody() is not yet implemented -- any volunteers?''
       (Inr NaN)"

definition calcBodyMovingPointAccelerationInBody ::
  "State \<Rightarrow> MobilizedBody \<Rightarrow> Vec3 \<Rightarrow> Vec3 \<Rightarrow> Vec3 \<Rightarrow> MobilizedBody \<Rightarrow> error + Vec3 fp" where
  "calcBodyMovingPointAccelerationInBody s B locationOnBodyB velocityOnBodyB
       accelerationOnBodyB inBodyA =
     SimTK_ASSERT_ALWAYS (\<not> literalAsCondition ''unimplemented method'')
       ''unimplemented method''
       ''MobilizedBody::calcBodyMovingPointAccelerationInBody() is not yet implemented -- any volunteers?''
       (Inr NaN)"

definition calcMovingPointToPointDistanceTimeDerivative ::
  "State \<Rightarrow> MobilizedBody \<Rightarrow> Vec3 \<Rightarrow> Vec3 \<Rightarrow> MobilizedBody \<Rightarrow> Vec3 \<Rightarrow> Vec3 \<Rightarrow> error + real fp" where
  "calcMovingPointToPointDistanceTimeDerivative s B locationOnBodyB velocityOnBodyB
       bodyA locationOnBodyA velocityOnBodyA =
     SimTK_ASSERT_ALWAYS (\<not> literalAsCondition ''unimplemented method'')
       ''unimplemented method''
       ''MobilizedBody::calcMovingPointToPointDistanceTimeDerivative() is not yet implemented -- any volunteers?''
       (Inr NaN)"

section \<open>Mobility forces\<close>

text \<open>
  Modelled from the spec: the body of \<^verbatim>\<open>updOneFromUPartition\<close>, which the header only
  declares. It returns a writable reference into the supplied u-like vector; the reference
  is the index of the slot here. The vector must have the length of the subsystem's u, the
  mobility must be one of this mobilizer's \<^verbatim>\<open>getNumU()\<close> (a Model-stage response), and the
  mobilizer's speeds are contiguous from its first slot.
\<close>

definition updOneFromUPartition ::
  "State \<Rightarrow> MobilizedBody \<Rightarrow> int \<Rightarrow> real list \<Rightarrow> error + nat" where
  "updOneFromUPartition s B which ulike =
     (if \<not> realizedTo s Model then Inl StageViolation
      else if length ulike \<noteq> length (stateU s) then Inl DimensionMismatch
      else if which < 0 \<or> int (numU s B) \<le> which then Inl IndexOutOfRange
      else Inr (uStart s B + nat which))"

definition applyOneMobilityForce ::
  "State \<Rightarrow> MobilizedBody \<Rightarrow> int \<Rightarrow> real \<Rightarrow> real list \<Rightarrow> error + real list" where
  "applyOneMobilityForce s B which f mobilityForces =
     bindE (updOneFromUPartition s B which mobilityForces)
       (\<lambda>slot. Inr (mobilityForces[slot := mobilityForces ! slot + f]))"

text \<open>
  Modelled from the spec: the body of \<^verbatim>\<open>Pin::updMyPartU\<close>, which the header only
  declares: a pin has one mobility, and its part of a u-like vector is that one slot.
\<close>

definition updMyPartU :: "State \<Rightarrow> MobilizedBody \<Rightarrow> real list \<Rightarrow> error + nat" where
  "updMyPartU s pin ulike = updOneFromUPartition s pin 0 ulike"

definition applyPinTorque ::
  "State \<Rightarrow> MobilizedBody \<Rightarrow> real \<Rightarrow> real list \<Rightarrow> error + real list" where
  "applyPinTorque s pin torque mobilityForces =
     bindE (updMyPartU s pin mobilityForces)
       (\<lambda>slot. Inr (mobilityForces[slot := mobilityForces ! slot + torque]))"

section \<open>Realization pipeline\<close>

text \<open>Modelled from the spec: the stage just below a stage, where an invalidation stops.\<close>

fun stage_below :: "Stage \<Rightarrow> Stage" where
  "stage_below Empty = Empty"
| "stage_below Topology = Empty"
| "stage_below Model = Topology"
| "stage_below Instance = Model"
| "stage_below Time = Instance"
| "stage_below Position = Time"
| "stage_below Velocity = Position"
| "stage_below Dynamics = Velocity"
| "stage_below Acceleration = Dynamics"

text \<open>
  Modelled from the spec: the stage computations of the bodies, which are not part of the
  sources: what the tree recursion from Ground stores in the cache at Position, Velocity
  and Acceleration stage, as functions of the State that is being realized.
\<close>

record Kinematics =
  calcBodyTransforms :: "State \<Rightarrow> MobilizedBody \<Rightarrow> Transform"
  calcBodyVelocities :: "State \<Rightarrow> MobilizedBody \<Rightarrow> SpatialVec"
  calcBodyAccelerations :: "State \<Rightarrow> MobilizedBody \<Rightarrow> SpatialVec"

text \<open>
  Modelled from the spec: one step of the pipeline, which stores what the stage computes
  and advances the marker to it.
\<close>

definition realizeStage :: "Kinematics \<Rightarrow> State \<Rightarrow> Stage \<Rightarrow> State" where
  "realizeStage k s g =
     (case g of
        Position \<Rightarrow> s\<lparr>stage := Position, bodyTransformCache := calcBodyTransforms k s\<rparr>
      | Velocity \<Rightarrow> s\<lparr>stage := Velocity, bodyVelocityCache := calcBodyVelocities k s\<rparr>
      | Acceleration \<Rightarrow>
          s\<lparr>stage := Acceleration, bodyAccelerationCache := calcBodyAccelerations k s\<rparr>
      | _ \<Rightarrow> s\<lparr>stage := g\<rparr>)"

text \<open>
  Modelled from the spec: \<^verbatim>\<open>realize(State&, stage)\<close>, which is not part of the sources: a
  stage that is already realized needs nothing; the stage one step above the marker is
  computed and becomes the marker; any higher stage would skip an un-realized one and
  fails with \<open>StageViolation\<close>, the State left as it was.
\<close>

definition realize :: "Kinematics \<Rightarrow> State \<Rightarrow> Stage \<Rightarrow> error + State" where
  "realize k s g =
     (if stage_rank g \<le> stage_rank (stage s) then Inr s
      else if stage_rank g = Suc (stage_rank (stage s)) then Inr (realizeStage k s g)
      else Inl StageViolation)"

text \<open>
  Modelled from the spec: the invalidation of a stage S, which is not part of the
  sources: it resets the marker to below S when S had been realized.
\<close>

definition invalidate :: "State \<Rightarrow> Stage \<Rightarrow> State" where
  "invalidate s g = (if realizedTo s g then s\<lparr>stage := stage_below g\<rparr> else s)"

text \<open>
  Modelled from the spec: the body of \<^verbatim>\<open>setOneQ\<close>, which the header only declares (as a
  Model-stage solver): it writes one of the mobilizer's \<^verbatim>\<open>getNumQ()\<close> coordinates, in the
  mobilizer's partition of q, and, q being a quantity of Position stage, invalidates
  Position before it returns. A failed call changes nothing.
\<close>

definition setOneQ :: "State \<Rightarrow> MobilizedBody \<Rightarrow> int \<Rightarrow> real \<Rightarrow> error + State" where
  "setOneQ s B which v =
     (if \<not> realizedTo s Model then Inl StageViolation
      else if which < 0 \<or> int (numQ s B) \<le> which then Inl IndexOutOfRange
      else Inr (invalidate (s\<lparr>stateQ := (stateQ s)[qStart s B + nat which := v]\<rparr>) Position))"

text \<open>
  Modelled from the spec: the body of \<^verbatim>\<open>setQVector\<close>, which the header only declares: the
  same for all the coordinates of the mobilizer, given as a vector of length
  \<^verbatim>\<open>getNumQ()\<close>.
\<close>

definition setQVector :: "State \<Rightarrow> MobilizedBody \<Rightarrow> real list \<Rightarrow> error + State" where
  "setQVector s B v =
     (if \<not> realizedTo s Model then Inl StageViolation
      else if length v \<noteq> numQ s B then Inl DimensionMismatch
      else Inr (invalidate
             (s\<lparr>stateQ := take (qStart s B) (stateQ s) @ v
                            @ drop (qStart s B + numQ s B) (stateQ s)\<rparr>) Position))"

section \<open>Constraint error and multiplier vectors\<close>

type_synonym Forces = "SpatialVec list \<times> real list"

text \<open>
  Modelled from the spec: the implementation object of a constraint, which is in no source
  file here. It has the equation counts \<open>(mp, mv, ma)\<close> of \<^verbatim>\<open>getNumConstraintEquations\<close>,
  the numbers of constrained bodies and mobilities, the callbacks that
  \<^verbatim>\<open>Constraint::Custom\<close> declares, and the multipliers that the solver left in the cache
  of the State, one per equation. An error callback is handed the number of equations of
  its kind and an array of that many slots to fill: the function here gives, for that
  number, the value written to each slot. A force callback is handed that number and its
  multipliers, and adds to the body forces (in the ancestor frame) and the mobility
  forces of the constrained bodies.
\<close>

record Constraint =
  mp :: nat
  mv :: nat
  ma :: nat
  numConstrainedBodies :: nat
  numConstrainedMobilities :: nat
  calcPositionErrors :: "State \<Rightarrow> nat \<Rightarrow> nat \<Rightarrow> real"
  calcPositionDotErrors :: "State \<Rightarrow> nat \<Rightarrow> nat \<Rightarrow> real"
  calcPositionDotDotErrors :: "State \<Rightarrow> nat \<Rightarrow> nat \<Rightarrow> real"
  applyPositionConstraintForces :: "State \<Rightarrow> nat \<Rightarrow> real list \<Rightarrow> Forces \<Rightarrow> Forces"
  calcVelocityErrors :: "State \<Rightarrow> nat \<Rightarrow> nat \<Rightarrow> real"
  calcVelocityDotErrors :: "State \<Rightarrow> nat \<Rightarrow> nat \<Rightarrow> real"
  applyVelocityConstraintForces :: "State \<Rightarrow> nat \<Rightarrow> real list \<Rightarrow> Forces \<Rightarrow> Forces"
  calcAccelerationErrors :: "State \<Rightarrow> nat \<Rightarrow> nat \<Rightarrow> real"
  applyAccelerationConstraintForces :: "State \<Rightarrow> nat \<Rightarrow> real list \<Rightarrow> Forces \<Rightarrow> Forces"
  cachedMultiplier :: "State \<Rightarrow> nat \<Rightarrow> real"

text \<open>
  Modelled from the spec: the filling of a newly allocated vector of \<open>m\<close> slots, slot
  after slot.
\<close>

definition fillSlots :: "nat \<Rightarrow> (nat \<Rightarrow> real) \<Rightarrow> real list" where
  "fillSlots m slot = map slot [0..<m]"

text \<open>
  Modelled from the spec: the body of \<^verbatim>\<open>getPositionError\<close>, which the header declares
  with the comment "mp of these" and no source file here defines: at Position stage, the
  errors of the holonomic equations.
\<close>

definition getPositionError :: "Constraint \<Rightarrow> State \<Rightarrow> error + real list" where
  "getPositionError c s =
     (if \<not> realizedTo s Position then Inl StageViolation
      else Inr (fillSlots (mp c) (calcPositionErrors c s (mp c))))"

text \<open>
  Modelled from the spec: the body of \<^verbatim>\<open>getVelocityError\<close> ("mp+mv of these"): at
  Velocity stage, the time derivatives of the holonomic errors and, stacked after them,
  the nonholonomic errors.
\<close>

definition getVelocityError :: "Constraint \<Rightarrow> State \<Rightarrow> error + real list" where
  "getVelocityError c s =
     (if \<not> realizedTo s Velocity then Inl StageViolation
      else Inr (fillSlots (mp c) (calcPositionDotErrors c s (mp c))
                @ fillSlots (mv c) (calcVelocityErrors c s (mv c))))"

text \<open>
  Modelled from the spec: the body of \<^verbatim>\<open>getAccelerationError\<close> ("mp+mv+ma of these"):
  at Acceleration stage, the errors of all equations at acceleration level, in the order
  holonomic, nonholonomic, acceleration-only.
\<close>

definition getAccelerationError :: "Constraint \<Rightarrow> State \<Rightarrow> error + real list" where
  "getAccelerationError c s =
     (if \<not> realizedTo s Acceleration then Inl StageViolation
      else Inr (fillSlots (mp c) (calcPositionDotDotErrors c s (mp c))
                @ fillSlots (mv c) (calcVelocityDotErrors c s (mv c))
                @ fillSlots (ma c) (calcAccelerationErrors c s (ma c))))"

text \<open>
  Modelled from the spec: the body of \<^verbatim>\<open>getMultipliers\<close> ("mp+mv+ma of these"): at
  Acceleration stage, the multiplier of every equation, in the same order.
\<close>

definition getMultipliers :: "Constraint \<Rightarrow> State \<Rightarrow> error + real list" where
  "getMultipliers c s =
     (if \<not> realizedTo s Acceleration then Inl StageViolation
      else Inr (fillSlots (mp c + mv c + ma c) (cachedMultiplier c s)))"

text \<open>
  Modelled from the spec: the recovery of the forces from the three groups of
  multipliers: the body and mobility forces start at zero, and each kind that has an
  equation adds its forces; a kind with no equation is never called.
\<close>

definition applyConstraintForces ::
  "Constraint \<Rightarrow> State \<Rightarrow> real list \<Rightarrow> real list \<Rightarrow> real list \<Rightarrow> Forces" where
  "applyConstraintForces c s lambdaP lambdaV lambdaA =
     (let f0 = (replicate (numConstrainedBodies c) (0, 0),
                replicate (numConstrainedMobilities c) 0);
          f1 = (if 0 < mp c then applyPositionConstraintForces c s (mp c) lambdaP f0 else f0);
          f2 = (if 0 < mv c then applyVelocityConstraintForces c s (mv c) lambdaV f1 else f1)
      in if 0 < ma c then applyAccelerationConstraintForces c s (ma c) lambdaA f2 else f2)"

text \<open>
  Modelled from the spec: the body of \<^verbatim>\<open>calcConstraintForcesFromMultipliers\<close>, which the
  header only declares: the State must be realized to Position, \<open>lambda\<close> holds the
  multipliers of the holonomic, the nonholonomic and the acceleration-only equations in
  that order, and a vector of another size is a \<open>DimensionMismatch\<close>.
\<close>

definition calcConstraintForcesFromMultipliers ::
  "Constraint \<Rightarrow> State \<Rightarrow> real list \<Rightarrow> error + Forces" where
  "calcConstraintForcesFromMultipliers c s lambda =
     (if \<not> realizedTo s Position then Inl StageViolation
      else if length lambda \<noteq> mp c + mv c + ma c then Inl DimensionMismatch
      else Inr (applyConstraintForces c s
                  (take (mp c) lambda)
                  (take (mv c) (drop (mp c) lambda))
                  (drop (mp c + mv c) lambda)))"

section \<open>An example system\<close>

text \<open>
  A State realized to Acceleration for Ground and three bodies, each on a pin: body 1 is
  turned by a quarter turn about z and spins about z, body 2 translates and accelerates
  without turning, body 3 sits at the Ground origin, at rest but accelerating.
\<close>

definition exampleState :: State where
  "exampleState =
     \<lparr>stage = Acceleration,
      qStart = (\<lambda>B. B - 1),
      numQ = (\<lambda>B. if B = 0 then 0 else 1),
      uStart = (\<lambda>B. B - 1),
      numU = (\<lambda>B. if B = 0 then 0 else 1),
      stateQ = [0, 0, 0],
      stateU = [1, 0, 0],
      bodyTransformCache = (\<lambda>B.
        if B = 1 then Transform (Mat33 (Vec3 0 (- 1) 0) (Vec3 1 0 0) (Vec3 0 0 1)) (Vec3 1 0 0)
        else if B = 2 then Transform identity_Mat33 (Vec3 0 2 0)
        else identity_Transform),
      bodyVelocityCache = (\<lambda>B.
        if B = 1 then (Vec3 0 0 1, Vec3 0 0 0)
        else if B = 2 then (Vec3 0 0 0, Vec3 3 4 0)
        else (Vec3 0 0 0, Vec3 0 0 0)),
      bodyAccelerationCache = (\<lambda>B.
        if B = 2 then (Vec3 0 0 0, Vec3 5 0 2)
        else if B = 3 then (Vec3 0 0 0, Vec3 0 3 4)
        else (Vec3 0 0 0, Vec3 0 0 0))\<rparr>"

text \<open>The same system before anything is realized past Time, and its stage computations.\<close>

definition exampleKinematics :: Kinematics where
  "exampleKinematics =
     \<lparr>calcBodyTransforms = (\<lambda>s B.
        if B = 0 then identity_Transform
        else Transform identity_Mat33 (Vec3 (stateQ s ! qStart s B) 0 0)),
      calcBodyVelocities = (\<lambda>s B.
        if B = 0 then (Vec3 0 0 0, Vec3 0 0 0)
        else (Vec3 0 0 0, Vec3 (stateU s ! uStart s B) 0 0)),
      calcBodyAccelerations = (\<lambda>s B. (Vec3 0 0 0, Vec3 0 0 0))\<rparr>"

definition exampleStateAtTime :: State where
  "exampleStateAtTime = exampleState\<lparr>stage := Time\<rparr>"

text \<open>
  A constraint on the two mobilities of one body, with one equation of each kind: every
  kind of multiplier is added to the first mobility force, and the nonholonomic one to
  the second as well.
\<close>

definition exampleConstraint :: Constraint where
  "exampleConstraint =
     \<lparr>mp = 1, mv = 1, ma = 1,
      numConstrainedBodies = 1,
      numConstrainedMobilities = 2,
      calcPositionErrors = (\<lambda>s m i. 1),
      calcPositionDotErrors = (\<lambda>s m i. 2),
      calcPositionDotDotErrors = (\<lambda>s m i. 3),
      applyPositionConstraintForces =
        (\<lambda>s m lam (bodyForces, mobilityForces).
           (bodyForces, mobilityForces[0 := mobilityForces ! 0 + lam ! 0])),
      calcVelocityErrors = (\<lambda>s m i. 4),
      calcVelocityDotErrors = (\<lambda>s m i. 5),
      applyVelocityConstraintForces =
        (\<lambda>s m lam (bodyForces, mobilityForces).
           (bodyForces, map (\<lambda>x. x + lam ! 0) mobilityForces)),
      calcAccelerationErrors = (\<lambda>s m i. 6),
      applyAccelerationConstraintForces =
        (\<lambda>s m lam (bodyForces, mobilityForces).
           (bodyForces, mobilityForces[0 := mobilityForces ! 0 + lam ! 0])),
      cachedMultiplier = (\<lambda>s i. real i)\<rparr>"

section \<open>Facts about the algebra and the responses\<close>

lemma plus_Vec3_commute: "(a::Vec3) + b = b + a"
  by (cases a; cases b) simp

lemmas response_defs =
  getBodyTransform_def getBodyVelocity_def getBodyAcceleration_def
  getBodyRotation_def getBodyOriginLocation_def getBodyAngularVelocity_def
  getBodyOriginVelocity_def getBodyAngularAcceleration_def getBodyOriginAcceleration_def

lemma locationAndVelocity_as_separate_calls:
  "calcBodyFixedPointLocationAndVelocityInGround s B p =
     bindE (locateBodyPointOnGround s B p) (\<lambda>loc.
     bindE (calcBodyFixedPointVelocityInGround s B p) (\<lambda>vel. Inr (loc, vel)))"
  by (simp add: calcBodyFixedPointLocationAndVelocityInGround_def locateBodyPointOnGround_def
      calcBodyFixedPointVelocityInGround_def expressBodyVectorInGround_def response_defs
      apply_Transform_def plus_Vec3_commute realizedTo_def)

lemma locationVelocityAndAcceleration_as_separate_calls:
  "calcBodyFixedPointLocationVelocityAndAccelerationInGround s B p =
     bindE (locateBodyPointOnGround s B p) (\<lambda>loc.
     bindE (calcBodyFixedPointVelocityInGround s B p) (\<lambda>vel.
     bindE (calcBodyFixedPointAccelerationInGround s B p) (\<lambda>acc. Inr (loc, vel, acc))))"
  by (simp add: calcBodyFixedPointLocationVelocityAndAccelerationInGround_def
      locateBodyPointOnGround_def calcBodyFixedPointVelocityInGround_def
      calcBodyFixedPointAccelerationInGround_def expressBodyVectorInGround_def
      response_defs apply_Transform_def plus_Vec3_commute realizedTo_def Let_def)

lemma locate_total:
  "realizedTo s Position \<Longrightarrow>
     locateBodyPointOnGround s B p = Inr (apply_Transform (bodyTransformCache s B) p)"
  by (simp add: locateBodyPointOnGround_def getBodyTransform_def)

lemma velocity_total:
  "realizedTo s Velocity \<Longrightarrow>
     calcBodyFixedPointVelocityInGround s B p =
       Inr (snd (bodyVelocityCache s B)
            + cross (fst (bodyVelocityCache s B))
                (mul_Mat33_Vec3 (xR (bodyTransformCache s B)) p))"
  by (simp add: calcBodyFixedPointVelocityInGround_def expressBodyVectorInGround_def
      response_defs realizedTo_def)

lemma acceleration_total:
  "realizedTo s Acceleration \<Longrightarrow>
     calcBodyFixedPointAccelerationInGround s B p =
       Inr (snd (bodyAccelerationCache s B)
            + cross (fst (bodyAccelerationCache s B))
                (mul_Mat33_Vec3 (xR (bodyTransformCache s B)) p)
            + cross (fst (bodyVelocityCache s B))
                (cross (fst (bodyVelocityCache s B))
                   (mul_Mat33_Vec3 (xR (bodyTransformCache s B)) p)))"
  by (simp add: calcBodyFixedPointAccelerationInGround_def expressBodyVectorInGround_def
      response_defs realizedTo_def)

lemma mul_Mat33_Vec3_assoc:
  "mul_Mat33_Vec3 (mul_Mat33 m n) p = mul_Mat33_Vec3 m (mul_Mat33_Vec3 n p)"
proof -
  obtain r1 r2 r3 where m: "m = Mat33 r1 r2 r3" by (cases m)
  obtain a b c d e f g h i where n: "n = Mat33 (Vec3 a b c) (Vec3 d e f) (Vec3 g h i)"
    by (metis Mat33.exhaust Vec3.exhaust)
  obtain x y z where p: "p = Vec3 x y z" by (cases p)
  obtain a1 b1 c1 where r1: "r1 = Vec3 a1 b1 c1" by (cases r1)
  obtain a2 b2 c2 where r2: "r2 = Vec3 a2 b2 c2" by (cases r2)
  obtain a3 b3 c3 where r3: "r3 = Vec3 a3 b3 c3" by (cases r3)
  show ?thesis
    by (simp add: m n p r1 r2 r3 algebra_simps)
qed

lemma mul_Mat33_Vec3_add:
  "mul_Mat33_Vec3 m (p + t) = mul_Mat33_Vec3 m p + mul_Mat33_Vec3 m t"
proof -
  obtain r1 r2 r3 where m: "m = Mat33 r1 r2 r3" by (cases m)
  obtain x y z where p: "p = Vec3 x y z" by (cases p)
  obtain x' y' z' where t: "t = Vec3 x' y' z'" by (cases t)
  obtain a1 b1 c1 where r1: "r1 = Vec3 a1 b1 c1" by (cases r1)
  obtain a2 b2 c2 where r2: "r2 = Vec3 a2 b2 c2" by (cases r2)
  obtain a3 b3 c3 where r3: "r3 = Vec3 a3 b3 c3" by (cases r3)
  show ?thesis
    by (simp add: m p t r1 r2 r3 algebra_simps)
qed

lemma mul_identity_Mat33_Vec3: "mul_Mat33_Vec3 identity_Mat33 p = p"
  by (cases p) (simp add: identity_Mat33_def)

lemma Vec3_add_cancel: "(a::Vec3) + b + (- b) = a"
  by (cases a; cases b) simp

lemma Vec3_neg_add_cancel: "(a::Vec3) + (- b) + b = a"
  by (cases a; cases b) simp

lemma mul_Mat33_Vec3_neg: "mul_Mat33_Vec3 m (- t) = - mul_Mat33_Vec3 m t"
proof -
  obtain r1 r2 r3 where m: "m = Mat33 r1 r2 r3" by (cases m)
  obtain x' y' z' where t: "t = Vec3 x' y' z'" by (cases t)
  obtain a1 b1 c1 where r1: "r1 = Vec3 a1 b1 c1" by (cases r1)
  obtain a2 b2 c2 where r2: "r2 = Vec3 a2 b2 c2" by (cases r2)
  obtain a3 b3 c3 where r3: "r3 = Vec3 a3 b3 c3" by (cases r3)
  show ?thesis
    by (simp add: m t r1 r2 r3 algebra_simps)
qed

lemma inverse_apply_Transform:
  assumes "is_Rotation (xR X)"
  shows "apply_Transform (inverse_Transform X) (apply_Transform X p) = p"
proof -
  let ?Rt = "transpose_Mat33 (xR X)"
  have "mul_Mat33_Vec3 ?Rt (mul_Mat33_Vec3 (xR X) p + xT X) + (- mul_Mat33_Vec3 ?Rt (xT X))
        = mul_Mat33_Vec3 ?Rt (mul_Mat33_Vec3 (xR X) p)"
    by (simp add: mul_Mat33_Vec3_add Vec3_add_cancel)
  also have "\<dots> = mul_Mat33_Vec3 (mul_Mat33 ?Rt (xR X)) p"
    by (simp add: mul_Mat33_Vec3_assoc)
  also have "\<dots> = p"
    using assms by (simp add: is_Rotation_def mul_identity_Mat33_Vec3)
  finally show ?thesis
    by (simp add: apply_Transform_def inverse_Transform_def)
qed

lemma apply_inverse_Transform:
  assumes "is_Rotation (xR X)"
  shows "apply_Transform X (apply_Transform (inverse_Transform X) p) = p"
proof -
  let ?Rt = "transpose_Mat33 (xR X)"
  have "mul_Mat33_Vec3 (xR X) (mul_Mat33_Vec3 ?Rt p + (- mul_Mat33_Vec3 ?Rt (xT X))) + xT X
        = mul_Mat33_Vec3 (mul_Mat33 (xR X) ?Rt) p + (- mul_Mat33_Vec3 (mul_Mat33 (xR X) ?Rt) (xT X)) + xT X"
    by (simp add: mul_Mat33_Vec3_add mul_Mat33_Vec3_neg mul_Mat33_Vec3_assoc)
  also have "\<dots> = p"
    using assms by (simp add: is_Rotation_def mul_identity_Mat33_Vec3 Vec3_neg_add_cancel)
  finally show ?thesis
    by (simp add: apply_Transform_def inverse_Transform_def)
qed

lemma exampleState_realized: "realizedTo exampleState g"
  by (cases g) (simp_all add: realizedTo_def exampleState_def)

lemma updOneFromUPartition_slot:
  "updOneFromUPartition s B which ulike = Inr slot \<Longrightarrow>
     realizedTo s Model \<and> length ulike = length (stateU s) \<and> 0 \<le> which \<and>
     which < int (numU s B) \<and> slot = uStart s B + nat which"
  by (simp add: updOneFromUPartition_def split: if_splits)

lemma updOneFromUPartition_total:
  "realizedTo s Model \<Longrightarrow> length ulike = length (stateU s) \<Longrightarrow> 0 \<le> which \<Longrightarrow>
   which < int (numU s B) \<Longrightarrow>
     updOneFromUPartition s B which ulike = Inr (uStart s B + nat which)"
  by (simp add: updOneFromUPartition_def)

lemma bindE_Inr_iff: "bindE m f = Inr y \<longleftrightarrow> (\<exists>x. m = Inr x \<and> f x = Inr y)"
  by (cases m) simp_all

lemma realize_Position_realized:
  "realize k s Position = Inr s1 \<Longrightarrow> realizedTo s1 Position"
  by (auto simp add: realize_def realizeStage_def realizedTo_def split: if_splits)

lemma realize_Position_from_Time:
  "stage s = Time \<Longrightarrow> realize k s Position = Inr (realizeStage k s Position)"
  by (simp add: realize_def)

lemma realizeStage_Position_cache:
  "bodyTransformCache (realizeStage k s Position) = calcBodyTransforms k s"
  "stage (realizeStage k s Position) = Position"
  by (simp_all add: realizeStage_def)

lemma invalidate_Position_stage:
  "realizedTo s Position \<Longrightarrow> stage (invalidate s Position) = Time"
  by (simp add: invalidate_def)

lemma setOneQ_invalidates:
  "realizedTo s Position \<Longrightarrow> setOneQ s A which v = Inr s' \<Longrightarrow> stage s' = Time"
  by (auto simp add: setOneQ_def invalidate_def realizedTo_def split: if_splits)

lemma setQVector_invalidates:
  "realizedTo s Position \<Longrightarrow> setQVector s A v = Inr s' \<Longrightarrow> stage s' = Time"
  by (auto simp add: setQVector_def invalidate_def realizedTo_def split: if_splits)

lemma response_after_invalidation:
  assumes "stage s = Time"
  shows "getBodyTransform s B = Inl StageViolation
       \<and> (\<exists>s'. realize k s Position = Inr s'
              \<and> getBodyTransform s' B = Inr (calcBodyTransforms k s B))"
  using assms
  by (simp add: realize_Position_from_Time getBodyTransform_def realizedTo_def
      realizeStage_Position_cache)

lemma split_multipliers:
  "length lambda = m1 + m2 + m3 \<Longrightarrow>
     lambda = take m1 lambda @ take m2 (drop m1 lambda) @ drop (m1 + m2) lambda
     \<and> length (take m1 lambda) = m1
     \<and> length (take m2 (drop m1 lambda)) = m2
     \<and> length (drop (m1 + m2) lambda) = m3"
proof -
  assume len: "length lambda = m1 + m2 + m3"
  have "take m2 (drop m1 lambda) @ drop (m1 + m2) lambda = drop m1 lambda"
    by (metis add.commute append_take_drop_id drop_drop)
  then have "lambda = take m1 lambda @ take m2 (drop m1 lambda) @ drop (m1 + m2) lambda"
    by simp
  with len show ?thesis by simp
qed

lemma norm_Vec3_nonneg: "0 \<le> norm_Vec3 v"
  by (cases v) (simp add: norm_Vec3_def)

lemma div_Vec3_nonzero: "d \<noteq> 0 \<Longrightarrow> \<exists>un. div_Vec3 r d = Finite un"
  by (cases r) simp

lemma locationAndVelocity_total:
  assumes "realizedTo s Velocity"
  shows "\<exists>loc vel. locateBodyPointOnGround s B p = Inr loc
           \<and> calcBodyFixedPointVelocityInGround s B p = Inr vel
           \<and> calcBodyFixedPointLocationAndVelocityInGround s B p = Inr (loc, vel)"
proof -
  from assms have "realizedTo s Position" by (simp add: realizedTo_def)
  with assms show ?thesis
    by (simp add: locationAndVelocity_as_separate_calls locate_total velocity_total)
qed

lemma locationVelocityAndAcceleration_total:
  assumes "realizedTo s Acceleration"
  shows "\<exists>loc vel acc. locateBodyPointOnGround s B p = Inr loc
           \<and> calcBodyFixedPointVelocityInGround s B p = Inr vel
           \<and> calcBodyFixedPointAccelerationInGround s B p = Inr acc
           \<and> calcBodyFixedPointLocationVelocityAndAccelerationInGround s B p
               = Inr (loc, vel, acc)"
proof -
  from assms have "realizedTo s Velocity" "realizedTo s Position"
    by (simp_all add: realizedTo_def)
  with assms show ?thesis
    by (simp add: locationVelocityAndAcceleration_as_separate_calls locate_total
        velocity_total acceleration_total)
qed

lemma div_Real_nonzero: "d \<noteq> 0 \<Longrightarrow> div_Real x d = Finite (x / d)"
  by (simp add: div_Real_def)

lemma exampleState_caches:
  "bodyTransformCache exampleState 0 = identity_Transform"
  "bodyTransformCache exampleState (Suc 0)
     = Transform (Mat33 (Vec3 0 (- 1) 0) (Vec3 1 0 0) (Vec3 0 0 1)) (Vec3 1 0 0)"
  "bodyTransformCache exampleState 2 = Transform identity_Mat33 (Vec3 0 2 0)"
  "bodyTransformCache exampleState 3 = identity_Transform"
  "bodyVelocityCache exampleState 0 = (Vec3 0 0 0, Vec3 0 0 0)"
  "bodyVelocityCache exampleState (Suc 0) = (Vec3 0 0 1, Vec3 0 0 0)"
  "bodyVelocityCache exampleState 2 = (Vec3 0 0 0, Vec3 3 4 0)"
  "bodyVelocityCache exampleState 3 = (Vec3 0 0 0, Vec3 0 0 0)"
  "bodyAccelerationCache exampleState 0 = (Vec3 0 0 0, Vec3 0 0 0)"
  "bodyAccelerationCache exampleState (Suc 0) = (Vec3 0 0 0, Vec3 0 0 0)"
  "bodyAccelerationCache exampleState 2 = (Vec3 0 0 0, Vec3 5 0 2)"
  "bodyAccelerationCache exampleState 3 = (Vec3 0 0 0, Vec3 0 3 4)"
  by (simp_all add: exampleState_def)

lemmas example_eval =
  locate_total velocity_total acceleration_total exampleState_realized exampleState_caches
  apply_Transform_def identity_Transform_def identity_Mat33_def zero_Vec3_def

section \<open>The claims\<close>

text \<open>
  C9. In a State realized to Velocity, the batched operator
  \<^verbatim>\<open>calcBodyFixedPointLocationAndVelocityInGround\<close> returns exactly the location that
  \<^verbatim>\<open>locateBodyPointOnGround\<close> returns and exactly the velocity that
  \<^verbatim>\<open>calcBodyFixedPointVelocityInGround\<close> returns; in a State realized to Acceleration,
  \<^verbatim>\<open>calcBodyFixedPointLocationVelocityAndAccelerationInGround\<close> returns these two and exactly
  the acceleration that \<^verbatim>\<open>calcBodyFixedPointAccelerationInGround\<close> returns. All of the
  operators succeed there.
\<close>

theorem batched_point_kinematics_agree:
  "(realizedTo s Velocity \<longrightarrow>
      (\<exists>loc vel.
         calcBodyFixedPointLocationAndVelocityInGround s B p = Inr (loc, vel) \<and>
         locateBodyPointOnGround s B p = Inr loc \<and>
         calcBodyFixedPointVelocityInGround s B p = Inr vel))
   \<and> (realizedTo s Acceleration \<longrightarrow>
      (\<exists>loc vel acc.
         calcBodyFixedPointLocationVelocityAndAccelerationInGround s B p = Inr (loc, vel, acc) \<and>
         locateBodyPointOnGround s B p = Inr loc \<and>
         calcBodyFixedPointVelocityInGround s B p = Inr vel \<and>
         calcBodyFixedPointAccelerationInGround s B p = Inr acc))"
proof (intro conjI impI)
  assume v: "realizedTo s Velocity"
  then have p: "realizedTo s Position" by (simp add: realizedTo_def)
  show "\<exists>loc vel.
         calcBodyFixedPointLocationAndVelocityInGround s B p = Inr (loc, vel) \<and>
         locateBodyPointOnGround s B p = Inr loc \<and>
         calcBodyFixedPointVelocityInGround s B p = Inr vel"
    by (simp add: locationAndVelocity_as_separate_calls locate_total [OF p] velocity_total [OF v])
next
  assume a: "realizedTo s Acceleration"
  then have v: "realizedTo s Velocity" and p: "realizedTo s Position"
    by (simp_all add: realizedTo_def)
  show "\<exists>loc vel acc.
         calcBodyFixedPointLocationVelocityAndAccelerationInGround s B p = Inr (loc, vel, acc) \<and>
         locateBodyPointOnGround s B p = Inr loc \<and>
         calcBodyFixedPointVelocityInGround s B p = Inr vel \<and>
         calcBodyFixedPointAccelerationInGround s B p = Inr acc"
    by (simp add: locationVelocityAndAcceleration_as_separate_calls locate_total [OF p]
        velocity_total [OF v] acceleration_total [OF a])
qed

theorem batched_point_kinematics_agree_witness:
  "realizedTo exampleState Velocity \<and> realizedTo exampleState Acceleration
   \<and> calcBodyFixedPointLocationAndVelocityInGround exampleState 1 (Vec3 1 0 0)
       = Inr (Vec3 1 1 0, Vec3 (- 1) 0 0)
   \<and> locateBodyPointOnGround exampleState 1 (Vec3 1 0 0) = Inr (Vec3 1 1 0)
   \<and> calcBodyFixedPointVelocityInGround exampleState 1 (Vec3 1 0 0) = Inr (Vec3 (- 1) 0 0)
   \<and> calcBodyFixedPointLocationVelocityAndAccelerationInGround exampleState 1 (Vec3 1 0 0)
       = Inr (Vec3 1 1 0, Vec3 (- 1) 0 0, Vec3 0 (- 1) 0)
   \<and> calcBodyFixedPointAccelerationInGround exampleState 1 (Vec3 1 0 0) = Inr (Vec3 0 (- 1) 0)"
proof -
  have l: "locateBodyPointOnGround exampleState 1 (Vec3 1 0 0) = Inr (Vec3 1 1 0)"
    by (simp add: locate_total exampleState_realized)
       (simp add: exampleState_def apply_Transform_def)
  have v: "calcBodyFixedPointVelocityInGround exampleState 1 (Vec3 1 0 0) = Inr (Vec3 (- 1) 0 0)"
    by (simp add: velocity_total exampleState_realized)
       (simp add: exampleState_def)
  have a: "calcBodyFixedPointAccelerationInGround exampleState 1 (Vec3 1 0 0) = Inr (Vec3 0 (- 1) 0)"
    by (simp add: acceleration_total exampleState_realized)
       (simp add: exampleState_def)
  show ?thesis
    using batched_point_kinematics_agree [of exampleState 1 "Vec3 1 0 0"] l v a
    by (auto simp add: exampleState_realized)
qed

text \<open>
  C5. In a State realized to Position, for a body whose cached transform holds a rotation
  (the invariant of the class), locating a body point on Ground and then locating that
  Ground point on the body gives the point back, and so does the other order: the two
  operators, which apply X_GB and its inverse, are mutually inverse. The equality is
  exact in real arithmetic.
\<close>

theorem locate_round_trip:
  assumes "realizedTo s Position" and "is_Rotation (xR (bodyTransformCache s B))"
  shows "bindE (locateBodyPointOnGround s B p) (locateGroundPointOnBody s B) = Inr p
       \<and> bindE (locateGroundPointOnBody s B p) (locateBodyPointOnGround s B) = Inr p"
  using assms
  by (simp add: locateBodyPointOnGround_def locateGroundPointOnBody_def getBodyTransform_def
      inverse_apply_Transform apply_inverse_Transform)

theorem locate_round_trip_witness:
  "realizedTo exampleState Position
   \<and> is_Rotation (xR (bodyTransformCache exampleState 1))
   \<and> locateBodyPointOnGround exampleState 1 (Vec3 1 2 3) = Inr (Vec3 (- 1) 1 3)
   \<and> bindE (locateBodyPointOnGround exampleState 1 (Vec3 1 2 3))
        (locateGroundPointOnBody exampleState 1) = Inr (Vec3 1 2 3)
   \<and> bindE (locateGroundPointOnBody exampleState 1 (Vec3 1 2 3))
        (locateBodyPointOnGround exampleState 1) = Inr (Vec3 1 2 3)"
proof -
  have r: "is_Rotation (xR (bodyTransformCache exampleState 1))"
    by (simp add: exampleState_def is_Rotation_def identity_Mat33_def)
  have l: "locateBodyPointOnGround exampleState 1 (Vec3 1 2 3) = Inr (Vec3 (- 1) 1 3)"
    by (simp add: locate_total exampleState_realized)
       (simp add: exampleState_def apply_Transform_def)
  show ?thesis
    using locate_round_trip [OF exampleState_realized r, of "Vec3 1 2 3"] r l
    by (simp add: exampleState_realized)
qed

text \<open>
  C6. \<^verbatim>\<open>calcBodyTransformFromBody\<close>, for this body B and the body A: when A and B are
  the same mobilized body it returns the identity transform in every State, whatever its
  stage (the State is not read). In a State realized to Position and for different
  bodies: when A is Ground it returns the response X_GB; when A is not Ground and B is,
  the inverse of the response X_GA; otherwise the composition of the inverse of X_GA
  with X_GB.
\<close>

theorem calcBodyTransformFromBody_cases:
  "(\<forall>s'. calcBodyTransformFromBody s' B B = Inr identity_Transform)
   \<and> (realizedTo s Position \<longrightarrow> \<not> isSameMobilizedBody B A \<longrightarrow>
        (isGround A \<longrightarrow>
           calcBodyTransformFromBody s B A = getBodyTransform s B \<and>
           calcBodyTransformFromBody s B A = Inr (bodyTransformCache s B))
      \<and> (\<not> isGround A \<longrightarrow> isGround B \<longrightarrow>
           (\<exists>X_GA. getBodyTransform s A = Inr X_GA \<and>
              calcBodyTransformFromBody s B A = Inr (inverse_Transform X_GA)))
      \<and> (\<not> isGround A \<longrightarrow> \<not> isGround B \<longrightarrow>
           (\<exists>X_GA X_GB. getBodyTransform s A = Inr X_GA \<and> getBodyTransform s B = Inr X_GB \<and>
              calcBodyTransformFromBody s B A
                = Inr (compose_Transform (inverse_Transform X_GA) X_GB))))"
  by (simp add: calcBodyTransformFromBody_def isSameMobilizedBody_def getBodyTransform_def)

theorem calcBodyTransformFromBody_cases_witness:
  "calcBodyTransformFromBody (exampleState\<lparr>stage := Empty\<rparr>) 1 1 = Inr identity_Transform
   \<and> realizedTo exampleState Position
   \<and> calcBodyTransformFromBody exampleState 1 0
       = Inr (Transform (Mat33 (Vec3 0 (- 1) 0) (Vec3 1 0 0) (Vec3 0 0 1)) (Vec3 1 0 0))
   \<and> calcBodyTransformFromBody exampleState 0 1
       = Inr (Transform (Mat33 (Vec3 0 1 0) (Vec3 (- 1) 0 0) (Vec3 0 0 1)) (Vec3 0 1 0))
   \<and> calcBodyTransformFromBody exampleState 2 1
       = Inr (Transform (Mat33 (Vec3 0 1 0) (Vec3 (- 1) 0 0) (Vec3 0 0 1)) (Vec3 2 1 0))"
proof -
  have t: "getBodyTransform exampleState B = Inr (bodyTransformCache exampleState B)" for B
    by (simp add: getBodyTransform_def exampleState_realized)
  have c: "bodyTransformCache exampleState (Suc 0)
             = Transform (Mat33 (Vec3 0 (- 1) 0) (Vec3 1 0 0) (Vec3 0 0 1)) (Vec3 1 0 0)"
          "bodyTransformCache exampleState 2 = Transform identity_Mat33 (Vec3 0 2 0)"
    by (simp_all add: exampleState_def)
  show ?thesis
    using calcBodyTransformFromBody_cases [of 1 exampleState 0]
      calcBodyTransformFromBody_cases [of 0 exampleState 1]
      calcBodyTransformFromBody_cases [of 2 exampleState 1]
    by (simp add: exampleState_realized isSameMobilizedBody_def isGround_def t c
        inverse_Transform_def compose_Transform_def identity_Mat33_def)
qed

text \<open>
  C8. Whatever the State, the bodies and the vectors, each of
  \<^verbatim>\<open>calcBodyMovingPointVelocityInBody\<close>, \<^verbatim>\<open>calcBodyMovingPointAccelerationInBody\<close> and
  \<^verbatim>\<open>calcMovingPointToPointDistanceTimeDerivative\<close> fails with the assertion error of the
  condition "unimplemented method" and the message that the method is not yet
  implemented; none of them returns a value, neither a finite one nor the NaN that the
  statement after the assertion names.
\<close>

theorem moving_point_operators_unimplemented:
  "calcBodyMovingPointVelocityInBody s B locationOnBodyB velocityOnBodyB inBodyA
     = Inl (AssertFailed ''unimplemented method''
         ''MobilizedBody::calcBodyMovingPointVelocityInBody() is not yet implemented -- any volunteers?'')
   \<and> calcBodyMovingPointAccelerationInBody s B locationOnBodyB velocityOnBodyB
       accelerationOnBodyB inBodyA
     = Inl (AssertFailed ''unimplemented method''
         ''MobilizedBody::calcBodyMovingPointAccelerationInBody() is not yet implemented -- any volunteers?'')
   \<and> calcMovingPointToPointDistanceTimeDerivative s B locationOnBodyB velocityOnBodyB
       inBodyA locationOnBodyA velocityOnBodyA
     = Inl (AssertFailed ''unimplemented method''
         ''MobilizedBody::calcMovingPointToPointDistanceTimeDerivative() is not yet implemented -- any volunteers?'')
   \<and> (\<forall>r. calcBodyMovingPointVelocityInBody s B locationOnBodyB velocityOnBodyB inBodyA
            \<noteq> Inr r)
   \<and> (\<forall>r. calcBodyMovingPointAccelerationInBody s B locationOnBodyB velocityOnBodyB
            accelerationOnBodyB inBodyA \<noteq> Inr r)
   \<and> (\<forall>r. calcMovingPointToPointDistanceTimeDerivative s B locationOnBodyB velocityOnBodyB
            inBodyA locationOnBodyA velocityOnBodyA \<noteq> Inr r)"
  by (simp add: calcBodyMovingPointVelocityInBody_def calcBodyMovingPointAccelerationInBody_def
      calcMovingPointToPointDistanceTimeDerivative_def SimTK_ASSERT_ALWAYS_def
      literalAsCondition_def)

theorem moving_point_operators_unimplemented_witness:
  "calcBodyMovingPointVelocityInBody exampleState 1 (Vec3 1 0 0) (Vec3 0 1 0) 2 \<noteq> Inr NaN
   \<and> calcBodyMovingPointVelocityInBody exampleState 1 (Vec3 1 0 0) (Vec3 0 1 0) 2
       \<noteq> Inr (Finite (Vec3 0 0 0))
   \<and> calcBodyMovingPointAccelerationInBody exampleState 1 (Vec3 1 0 0) (Vec3 0 1 0) (Vec3 0 0 1) 2
       \<noteq> Inr NaN
   \<and> calcMovingPointToPointDistanceTimeDerivative exampleState 1 (Vec3 1 0 0) (Vec3 0 1 0)
       2 (Vec3 0 0 0) (Vec3 0 0 1) \<noteq> Inr NaN"
  using moving_point_operators_unimplemented
    [of exampleState 1 "Vec3 1 0 0" "Vec3 0 1 0" 2 "Vec3 0 0 1" "Vec3 0 0 0" "Vec3 0 0 1"]
  by simp

text \<open>
  C10. For a mobilizer whose speeds lie inside the u vector of the State: whenever
  \<^verbatim>\<open>applyOneMobilityForce\<close> returns, the vector has kept its length, the slot of mobility
  \<open>which\<close> of this mobilizer (slot \<open>uStart + which\<close>, one of the mobilizer's own) holds its
  old value plus \<open>f\<close>, and every other entry is what it was; and it does return, with
  exactly that vector, when the State is realized to Model, the vector is u-like and
  \<open>which\<close> is one of the mobilizer's mobilities. The same holds for \<^verbatim>\<open>Pin::applyPinTorque\<close>
  and the single slot of a pin.
\<close>

theorem applyOneMobilityForce_adds_to_one_slot:
  assumes part: "uStart s B + numU s B \<le> length (stateU s)"
  shows "(applyOneMobilityForce s B which f mobilityForces = Inr result \<longrightarrow>
            length result = length mobilityForces
          \<and> result ! (uStart s B + nat which) = mobilityForces ! (uStart s B + nat which) + f
          \<and> (\<forall>j. j \<noteq> uStart s B + nat which \<longrightarrow> result ! j = mobilityForces ! j)
          \<and> uStart s B \<le> uStart s B + nat which
          \<and> uStart s B + nat which < uStart s B + numU s B)
       \<and> (realizedTo s Model \<longrightarrow> length mobilityForces = length (stateU s) \<longrightarrow>
            0 \<le> which \<longrightarrow> which < int (numU s B) \<longrightarrow>
            applyOneMobilityForce s B which f mobilityForces
              = Inr (mobilityForces[uStart s B + nat which
                       := mobilityForces ! (uStart s B + nat which) + f]))
       \<and> (numU s B = 1 \<longrightarrow> applyPinTorque s B torque mobilityForces = Inr result' \<longrightarrow>
            length result' = length mobilityForces
          \<and> result' ! uStart s B = mobilityForces ! uStart s B + torque
          \<and> (\<forall>j. j \<noteq> uStart s B \<longrightarrow> result' ! j = mobilityForces ! j))
       \<and> (numU s B = 1 \<longrightarrow> realizedTo s Model \<longrightarrow>
            length mobilityForces = length (stateU s) \<longrightarrow>
            applyPinTorque s B torque mobilityForces
              = Inr (mobilityForces[uStart s B := mobilityForces ! uStart s B + torque]))"
proof (intro conjI impI)
  assume r: "applyOneMobilityForce s B which f mobilityForces = Inr result"
  then obtain slot where u: "updOneFromUPartition s B which mobilityForces = Inr slot"
    and res: "result = mobilityForces[slot := mobilityForces ! slot + f]"
    by (auto simp add: applyOneMobilityForce_def bindE_Inr_iff)
  from updOneFromUPartition_slot [OF u]
  have slot: "slot = uStart s B + nat which" and len: "length mobilityForces = length (stateU s)"
    and w: "0 \<le> which" "which < int (numU s B)"
    by simp_all
  from w have lt: "nat which < numU s B" by linarith
  with part len have inb: "slot < length mobilityForces" by (simp add: slot)
  show "length result = length mobilityForces" by (simp add: res)
  show "result ! (uStart s B + nat which) = mobilityForces ! (uStart s B + nat which) + f"
    using inb by (simp add: res slot)
  show "\<forall>j. j \<noteq> uStart s B + nat which \<longrightarrow> result ! j = mobilityForces ! j"
    by (simp add: res slot)
  show "uStart s B \<le> uStart s B + nat which" by simp
  show "uStart s B + nat which < uStart s B + numU s B" using lt by simp
next
  assume "realizedTo s Model" "length mobilityForces = length (stateU s)" "0 \<le> which"
    "which < int (numU s B)"
  then show "applyOneMobilityForce s B which f mobilityForces
              = Inr (mobilityForces[uStart s B + nat which
                       := mobilityForces ! (uStart s B + nat which) + f])"
    by (simp add: applyOneMobilityForce_def updOneFromUPartition_total)
next
  assume n: "numU s B = 1" and r: "applyPinTorque s B torque mobilityForces = Inr result'"
  then obtain slot where u: "updOneFromUPartition s B 0 mobilityForces = Inr slot"
    and res: "result' = mobilityForces[slot := mobilityForces ! slot + torque]"
    by (auto simp add: applyPinTorque_def updMyPartU_def bindE_Inr_iff)
  from updOneFromUPartition_slot [OF u]
  have slot: "slot = uStart s B" and len: "length mobilityForces = length (stateU s)"
    by simp_all
  with part n have inb: "slot < length mobilityForces" by simp
  show "length result' = length mobilityForces" by (simp add: res)
  show "result' ! uStart s B = mobilityForces ! uStart s B + torque"
    using inb by (simp add: res slot)
  show "\<forall>j. j \<noteq> uStart s B \<longrightarrow> result' ! j = mobilityForces ! j"
    by (simp add: res slot)
next
  assume "numU s B = 1" "realizedTo s Model" "length mobilityForces = length (stateU s)"
  then show "applyPinTorque s B torque mobilityForces
              = Inr (mobilityForces[uStart s B := mobilityForces ! uStart s B + torque])"
    by (simp add: applyPinTorque_def updMyPartU_def updOneFromUPartition_total)
qed

theorem applyOneMobilityForce_adds_to_one_slot_witness:
  "uStart exampleState 2 + numU exampleState 2 \<le> length (stateU exampleState)
   \<and> numU exampleState 2 = 1
   \<and> applyOneMobilityForce exampleState 2 0 5 [10, 20, 30] = Inr [10, 25, 30]
   \<and> applyPinTorque exampleState 2 7 [10, 20, 30] = Inr [10, 27, 30]"
proof -
  have p: "uStart exampleState 2 + numU exampleState 2 \<le> length (stateU exampleState)"
    by (simp add: exampleState_def)
  have l: "length [10, 20, 30 :: real] = length (stateU exampleState)"
    by (simp add: exampleState_def)
  have n: "numU exampleState 2 = 1" "uStart exampleState 2 = 1"
    by (simp_all add: exampleState_def)
  show ?thesis
    using applyOneMobilityForce_adds_to_one_slot
            [OF p, of 0 5 "[10, 20, 30]" "[10, 25, 30]" 7 "[10, 27, 30]"] p l n
    by (simp add: exampleState_realized)
qed

text \<open>
  C2. The Position-stage response \<^verbatim>\<open>getBodyTransform\<close> fails with \<open>StageViolation\<close> in
  a State that is not realized to Position. Realizing Position succeeds from Time stage
  or above; after it has succeeded the response succeeds and returns the cached
  transform, which is the one just computed when Position had not been realized before.
  After any call of \<^verbatim>\<open>setOneQ\<close> or \<^verbatim>\<open>setQVector\<close> that then returns, the response fails
  with \<open>StageViolation\<close> again, and realizing Position again succeeds and makes the
  response return the transform computed from the new coordinates.
\<close>

theorem position_response_stage_invariant:
  "(\<not> realizedTo s Position \<longrightarrow> getBodyTransform s B = Inl StageViolation)
   \<and> (realizedTo s Time \<longrightarrow> (\<exists>s1. realize k s Position = Inr s1))
   \<and> (realize k s Position = Inr s1 \<longrightarrow>
        getBodyTransform s1 B = Inr (bodyTransformCache s1 B)
      \<and> (\<not> realizedTo s Position \<longrightarrow> bodyTransformCache s1 B = calcBodyTransforms k s B)
      \<and> (\<forall>A which v s2. setOneQ s1 A which v = Inr s2 \<longrightarrow>
            getBodyTransform s2 B = Inl StageViolation
          \<and> (\<exists>s3. realize k s2 Position = Inr s3
                 \<and> getBodyTransform s3 B = Inr (calcBodyTransforms k s2 B)))
      \<and> (\<forall>A v s2. setQVector s1 A v = Inr s2 \<longrightarrow>
            getBodyTransform s2 B = Inl StageViolation
          \<and> (\<exists>s3. realize k s2 Position = Inr s3
                 \<and> getBodyTransform s3 B = Inr (calcBodyTransforms k s2 B))))"
proof (intro conjI impI allI)
  assume "\<not> realizedTo s Position"
  then show "getBodyTransform s B = Inl StageViolation"
    by (simp add: getBodyTransform_def)
next
  assume "realizedTo s Time"
  then show "\<exists>s1. realize k s Position = Inr s1"
    by (auto simp add: realize_def realizedTo_def)
next
  assume r: "realize k s Position = Inr s1"
  then show "getBodyTransform s1 B = Inr (bodyTransformCache s1 B)"
    by (simp add: getBodyTransform_def realize_Position_realized)
next
  assume r: "realize k s Position = Inr s1" and n: "\<not> realizedTo s Position"
  then show "bodyTransformCache s1 B = calcBodyTransforms k s B"
    by (auto simp add: realize_def realizedTo_def realizeStage_def split: if_splits)
next
  fix A which v s2
  assume r: "realize k s Position = Inr s1" and q: "setOneQ s1 A which v = Inr s2"
  have t: "stage s2 = Time"
    using setOneQ_invalidates [OF realize_Position_realized [OF r] q] .
  from response_after_invalidation [OF t]
  show "getBodyTransform s2 B = Inl StageViolation"
    and "\<exists>s3. realize k s2 Position = Inr s3
           \<and> getBodyTransform s3 B = Inr (calcBodyTransforms k s2 B)"
    by simp_all
next
  fix A v s2
  assume r: "realize k s Position = Inr s1" and q: "setQVector s1 A v = Inr s2"
  have t: "stage s2 = Time"
    using setQVector_invalidates [OF realize_Position_realized [OF r] q] .
  from response_after_invalidation [OF t]
  show "getBodyTransform s2 B = Inl StageViolation"
    and "\<exists>s3. realize k s2 Position = Inr s3
           \<and> getBodyTransform s3 B = Inr (calcBodyTransforms k s2 B)"
    by simp_all
qed

theorem position_response_stage_invariant_witness:
  "\<not> realizedTo exampleStateAtTime Position
   \<and> getBodyTransform exampleStateAtTime 2 = Inl StageViolation
   \<and> (\<exists>s1. realize exampleKinematics exampleStateAtTime Position = Inr s1
          \<and> getBodyTransform s1 2 = Inr (Transform identity_Mat33 (Vec3 0 0 0))
          \<and> (\<exists>s2. setOneQ s1 2 0 7 = Inr s2
                 \<and> getBodyTransform s2 2 = Inl StageViolation
                 \<and> (\<exists>s3. realize exampleKinematics s2 Position = Inr s3
                        \<and> getBodyTransform s3 2 = Inr (Transform identity_Mat33 (Vec3 7 0 0))))
          \<and> (\<exists>s2. setQVector s1 2 [7] = Inr s2
                 \<and> getBodyTransform s2 2 = Inl StageViolation
                 \<and> (\<exists>s3. realize exampleKinematics s2 Position = Inr s3
                        \<and> getBodyTransform s3 2 = Inr (Transform identity_Mat33 (Vec3 7 0 0)))))"
proof -
  define s1 where "s1 = realizeStage exampleKinematics exampleStateAtTime Position"
  define s2 where "s2 = invalidate (s1\<lparr>stateQ := (stateQ s1)[qStart s1 2 + nat 0 := 7]\<rparr>) Position"
  define s2' where "s2' = invalidate
     (s1\<lparr>stateQ := take (qStart s1 2) (stateQ s1) @ [7] @ drop (qStart s1 2 + numQ s1 2) (stateQ s1)\<rparr>)
     Position"
  have n: "\<not> realizedTo exampleStateAtTime Position"
    by (simp add: realizedTo_def exampleStateAtTime_def)
  have r: "realize exampleKinematics exampleStateAtTime Position = Inr s1"
    by (simp add: realize_def exampleStateAtTime_def s1_def)
  have f1: "stage s1 = Position" "numQ s1 2 = 1" "qStart s1 2 = 1" "stateQ s1 = [0, 0, 0]"
    by (simp_all add: s1_def realizeStage_def exampleStateAtTime_def exampleState_def)
  have q: "setOneQ s1 2 0 7 = Inr s2"
    by (simp add: setOneQ_def s2_def realizedTo_def f1)
  have q': "setQVector s1 2 [7] = Inr s2'"
    by (simp add: setQVector_def s2'_def realizedTo_def f1)
  have c1: "calcBodyTransforms exampleKinematics exampleStateAtTime 2
              = Transform identity_Mat33 (Vec3 0 0 0)"
    by (simp add: exampleKinematics_def exampleStateAtTime_def exampleState_def)
  have f2: "stateQ s2 = [0, 7, 0]" "qStart s2 2 = 1" "stateQ s2' = [0, 7, 0]" "qStart s2' 2 = 1"
    by (simp_all add: s2_def s2'_def invalidate_def f1)
  have c2: "calcBodyTransforms exampleKinematics s2 2 = Transform identity_Mat33 (Vec3 7 0 0)"
    "calcBodyTransforms exampleKinematics s2' 2 = Transform identity_Mat33 (Vec3 7 0 0)"
    by (simp_all add: exampleKinematics_def f2)
  note inv = position_response_stage_invariant [of exampleStateAtTime 2 exampleKinematics s1]
  from inv n have a: "getBodyTransform exampleStateAtTime 2 = Inl StageViolation"
    by simp
  from inv n r c1 have b: "getBodyTransform s1 2 = Inr (Transform identity_Mat33 (Vec3 0 0 0))"
    by simp
  from inv r have "\<forall>A which v s2. setOneQ s1 A which v = Inr s2 \<longrightarrow>
            getBodyTransform s2 2 = Inl StageViolation
          \<and> (\<exists>s3. realize exampleKinematics s2 Position = Inr s3
                 \<and> getBodyTransform s3 2 = Inr (calcBodyTransforms exampleKinematics s2 2))"
    by simp
  with q c2 have c: "getBodyTransform s2 2 = Inl StageViolation
          \<and> (\<exists>s3. realize exampleKinematics s2 Position = Inr s3
                 \<and> getBodyTransform s3 2 = Inr (Transform identity_Mat33 (Vec3 7 0 0)))"
    by metis
  from inv r have "\<forall>A v s2. setQVector s1 A v = Inr s2 \<longrightarrow>
            getBodyTransform s2 2 = Inl StageViolation
          \<and> (\<exists>s3. realize exampleKinematics s2 Position = Inr s3
                 \<and> getBodyTransform s3 2 = Inr (calcBodyTransforms exampleKinematics s2 2))"
    by simp
  with q' c2 have d: "getBodyTransform s2' 2 = Inl StageViolation
          \<and> (\<exists>s3. realize exampleKinematics s2' Position = Inr s3
                 \<and> getBodyTransform s3 2 = Inr (Transform identity_Mat33 (Vec3 7 0 0)))"
    by metis
  show ?thesis
    using n a r b q c q' d by blast
qed

text \<open>
  C3. In a State realized to Velocity, for a station PB of body B and a station PA of a
  different body A, with r the Ground-frame separation of the two points (the difference
  of what \<^verbatim>\<open>locateBodyPointOnGround\<close> returns for them), v their relative velocity (the
  difference of what \<^verbatim>\<open>calcBodyFixedPointVelocityInGround\<close> returns) and d the norm of r:
  \<^verbatim>\<open>calcFixedPointToPointDistanceTimeDerivative\<close> returns the norm of v when d is zero, and
  the dot product of v with the quotient r/d, which is finite, when d is positive. The
  result is never the non-finite outcome of a division by zero.
\<close>

theorem distance_time_derivative:
  assumes "realizedTo s Velocity" and "\<not> isSameMobilizedBody B A"
  shows "\<exists>rB rA vB vA.
           locateBodyPointOnGround s B pB = Inr rB
         \<and> locateBodyPointOnGround s A pA = Inr rA
         \<and> calcBodyFixedPointVelocityInGround s B pB = Inr vB
         \<and> calcBodyFixedPointVelocityInGround s A pA = Inr vA
         \<and> (norm_Vec3 (rA - rB) = 0 \<longrightarrow>
              calcFixedPointToPointDistanceTimeDerivative s B pB A pA
                = Inr (Finite (norm_Vec3 (vA - vB))))
         \<and> (0 < norm_Vec3 (rA - rB) \<longrightarrow>
              (\<exists>un. div_Vec3 (rA - rB) (norm_Vec3 (rA - rB)) = Finite un
                 \<and> calcFixedPointToPointDistanceTimeDerivative s B pB A pA
                     = Inr (Finite (dot (vA - vB) un))))
         \<and> calcFixedPointToPointDistanceTimeDerivative s B pB A pA \<noteq> Inr NaN"
proof -
  from locationAndVelocity_total [OF assms(1), of B pB]
  obtain rB vB where b: "locateBodyPointOnGround s B pB = Inr rB"
    "calcBodyFixedPointVelocityInGround s B pB = Inr vB"
    "calcBodyFixedPointLocationAndVelocityInGround s B pB = Inr (rB, vB)"
    by blast
  from locationAndVelocity_total [OF assms(1), of A pA]
  obtain rA vA where a: "locateBodyPointOnGround s A pA = Inr rA"
    "calcBodyFixedPointVelocityInGround s A pA = Inr vA"
    "calcBodyFixedPointLocationAndVelocityInGround s A pA = Inr (rA, vA)"
    by blast
  let ?d = "norm_Vec3 (rA - rB)"
  have res: "calcFixedPointToPointDistanceTimeDerivative s B pB A pA =
               (if ?d = 0 then Inr (Finite (norm_Vec3 (vA - vB)))
                else Inr (map_fp (dot (vA - vB)) (div_Vec3 (rA - rB) ?d)))"
    using assms(2)
    by (simp add: calcFixedPointToPointDistanceTimeDerivative_def a b Let_def)
  have zero: "?d = 0 \<longrightarrow>
      calcFixedPointToPointDistanceTimeDerivative s B pB A pA
        = Inr (Finite (norm_Vec3 (vA - vB)))"
    by (simp add: res)
  have pos: "0 < ?d \<longrightarrow>
      (\<exists>un. div_Vec3 (rA - rB) ?d = Finite un
         \<and> calcFixedPointToPointDistanceTimeDerivative s B pB A pA
             = Inr (Finite (dot (vA - vB) un)))"
  proof
    assume "0 < ?d"
    then have nz: "?d \<noteq> 0" by simp
    from div_Vec3_nonzero [OF nz] obtain un where "div_Vec3 (rA - rB) ?d = Finite un" ..
    with nz show "\<exists>un. div_Vec3 (rA - rB) ?d = Finite un
         \<and> calcFixedPointToPointDistanceTimeDerivative s B pB A pA
             = Inr (Finite (dot (vA - vB) un))"
      by (simp add: res)
  qed
  have fin: "calcFixedPointToPointDistanceTimeDerivative s B pB A pA \<noteq> Inr NaN"
  proof (cases "?d = 0")
    case True
    then show ?thesis by (simp add: res)
  next
    case False
    from div_Vec3_nonzero [OF False] obtain un where "div_Vec3 (rA - rB) ?d = Finite un" ..
    with False show ?thesis by (simp add: res)
  qed
  from a(1,2) b(1,2) zero pos fin show ?thesis by blast
qed

theorem distance_time_derivative_witness:
  "realizedTo exampleState Velocity \<and> \<not> isSameMobilizedBody 1 2
   \<and> calcFixedPointToPointDistanceTimeDerivative exampleState 1 (Vec3 0 0 0) 2 (Vec3 1 (- 2) 0)
       = Inr (Finite 5)
   \<and> calcFixedPointToPointDistanceTimeDerivative exampleState 1 (Vec3 1 0 0) 2 (Vec3 4 3 0)
       = Inr (Finite (28 / 5))"
proof -
  have d: "\<not> isSameMobilizedBody 1 2"
    by (simp add: isSameMobilizedBody_def)
  have coincident:
    "locateBodyPointOnGround exampleState (Suc 0) (Vec3 0 0 0) = Inr (Vec3 1 0 0)"
    "locateBodyPointOnGround exampleState 2 (Vec3 1 (- 2) 0) = Inr (Vec3 1 0 0)"
    "calcBodyFixedPointVelocityInGround exampleState (Suc 0) (Vec3 0 0 0) = Inr (Vec3 0 0 0)"
    "calcBodyFixedPointVelocityInGround exampleState 2 (Vec3 1 (- 2) 0) = Inr (Vec3 3 4 0)"
    by (simp_all add: example_eval)
  have apart:
    "locateBodyPointOnGround exampleState (Suc 0) (Vec3 1 0 0) = Inr (Vec3 1 1 0)"
    "locateBodyPointOnGround exampleState 2 (Vec3 4 3 0) = Inr (Vec3 4 5 0)"
    "calcBodyFixedPointVelocityInGround exampleState (Suc 0) (Vec3 1 0 0) = Inr (Vec3 (- 1) 0 0)"
    "calcBodyFixedPointVelocityInGround exampleState 2 (Vec3 4 3 0) = Inr (Vec3 3 4 0)"
    by (simp_all add: example_eval)
  have n: "norm_Vec3 (Vec3 0 0 0) = 0" "norm_Vec3 (Vec3 3 4 0) = 5"
    by (simp_all add: norm_Vec3_def)
  from distance_time_derivative [OF exampleState_realized d, of "Vec3 0 0 0" "Vec3 1 (- 2) 0"]
  have c1: "calcFixedPointToPointDistanceTimeDerivative exampleState 1 (Vec3 0 0 0) 2
              (Vec3 1 (- 2) 0) = Inr (Finite 5)"
    by (simp add: coincident n)
  from distance_time_derivative [OF exampleState_realized d, of "Vec3 1 0 0" "Vec3 4 3 0"]
  have c2: "calcFixedPointToPointDistanceTimeDerivative exampleState 1 (Vec3 1 0 0) 2
              (Vec3 4 3 0) = Inr (Finite (28 / 5))"
    by (auto simp add: apart n)
  from c1 c2 d show ?thesis
    by (simp add: exampleState_realized)
qed

text \<open>
  C4. In a State realized to Acceleration, for stations of two different bodies, with r,
  v and a the Ground-frame separation, relative velocity and relative acceleration of the
  two points (differences of what the three single-point operators return) and d the norm
  of r: \<^verbatim>\<open>calcFixedPointToPointDistance2ndTimeDerivative\<close> returns the norm of a when d
  and the norm of v are both zero; the dot product of a with v over its norm when d is
  zero and the norm of v is positive; and, with u = r/d, the value
  dot(a,u) + dot(v - dot(v,u) u, v)/d when d is positive. Every quotient taken is finite,
  and the result is never the non-finite outcome of a division by zero.
\<close>

theorem distance_second_time_derivative:
  assumes "realizedTo s Acceleration" and "\<not> isSameMobilizedBody B A"
  shows "\<exists>rB rA vB vA aB aA.
           locateBodyPointOnGround s B pB = Inr rB
         \<and> locateBodyPointOnGround s A pA = Inr rA
         \<and> calcBodyFixedPointVelocityInGround s B pB = Inr vB
         \<and> calcBodyFixedPointVelocityInGround s A pA = Inr vA
         \<and> calcBodyFixedPointAccelerationInGround s B pB = Inr aB
         \<and> calcBodyFixedPointAccelerationInGround s A pA = Inr aA
         \<and> (norm_Vec3 (rA - rB) = 0 \<longrightarrow> norm_Vec3 (vA - vB) = 0 \<longrightarrow>
              calcFixedPointToPointDistance2ndTimeDerivative s B pB A pA
                = Inr (Finite (norm_Vec3 (aA - aB))))
         \<and> (norm_Vec3 (rA - rB) = 0 \<longrightarrow> 0 < norm_Vec3 (vA - vB) \<longrightarrow>
              (\<exists>vn. div_Vec3 (vA - vB) (norm_Vec3 (vA - vB)) = Finite vn
                 \<and> calcFixedPointToPointDistance2ndTimeDerivative s B pB A pA
                     = Inr (Finite (dot (aA - aB) vn))))
         \<and> (0 < norm_Vec3 (rA - rB) \<longrightarrow>
              (\<exists>un. div_Vec3 (rA - rB) (norm_Vec3 (rA - rB)) = Finite un
                 \<and> calcFixedPointToPointDistance2ndTimeDerivative s B pB A pA
                     = Inr (Finite (dot (aA - aB) un
                          + dot ((vA - vB) - scale (dot (vA - vB) un) un) (vA - vB)
                            / norm_Vec3 (rA - rB)))))
         \<and> calcFixedPointToPointDistance2ndTimeDerivative s B pB A pA \<noteq> Inr NaN"
proof -
  from locationVelocityAndAcceleration_total [OF assms(1), of B pB]
  obtain rB vB aB where b: "locateBodyPointOnGround s B pB = Inr rB"
    "calcBodyFixedPointVelocityInGround s B pB = Inr vB"
    "calcBodyFixedPointAccelerationInGround s B pB = Inr aB"
    "calcBodyFixedPointLocationVelocityAndAccelerationInGround s B pB = Inr (rB, vB, aB)"
    by blast
  from locationVelocityAndAcceleration_total [OF assms(1), of A pA]
  obtain rA vA aA where a: "locateBodyPointOnGround s A pA = Inr rA"
    "calcBodyFixedPointVelocityInGround s A pA = Inr vA"
    "calcBodyFixedPointAccelerationInGround s A pA = Inr aA"
    "calcBodyFixedPointLocationVelocityAndAccelerationInGround s A pA = Inr (rA, vA, aA)"
    by blast
  let ?r = "rA - rB" and ?v = "vA - vB" and ?a = "aA - aB"
  let ?d = "norm_Vec3 ?r" and ?sp = "norm_Vec3 ?v"
  let ?res = "calcFixedPointToPointDistance2ndTimeDerivative s B pB A pA"
  have res: "?res =
      (if ?d = 0 then
         (if ?sp = 0 then Inr (Finite (norm_Vec3 ?a))
          else Inr (map_fp (dot ?a) (div_Vec3 ?v ?sp)))
       else
         Inr (case div_Vec3 ?r ?d of
                NaN \<Rightarrow> NaN
              | Finite un \<Rightarrow>
                  map_fp (\<lambda>x. dot ?a un + x)
                    (div_Real (dot (?v - scale (dot ?v un) un) ?v) ?d)))"
    using assms(2)
    by (simp add: calcFixedPointToPointDistance2ndTimeDerivative_def a b Let_def
        split: fp.split)
  have rest: "?d = 0 \<longrightarrow> ?sp = 0 \<longrightarrow> ?res = Inr (Finite (norm_Vec3 ?a))"
    by (simp add: res)
  have moving: "?d = 0 \<longrightarrow> 0 < ?sp \<longrightarrow>
      (\<exists>vn. div_Vec3 ?v ?sp = Finite vn \<and> ?res = Inr (Finite (dot ?a vn)))"
  proof (intro impI)
    assume z: "?d = 0" and "0 < ?sp"
    then have nz: "?sp \<noteq> 0" by simp
    from div_Vec3_nonzero [OF nz] obtain vn where "div_Vec3 ?v ?sp = Finite vn" ..
    with z nz show "\<exists>vn. div_Vec3 ?v ?sp = Finite vn \<and> ?res = Inr (Finite (dot ?a vn))"
      by (simp add: res)
  qed
  have apart: "0 < ?d \<longrightarrow>
      (\<exists>un. div_Vec3 ?r ?d = Finite un
         \<and> ?res = Inr (Finite (dot ?a un + dot (?v - scale (dot ?v un) un) ?v / ?d)))"
  proof
    assume "0 < ?d"
    then have nz: "?d \<noteq> 0" by simp
    from div_Vec3_nonzero [OF nz] obtain un where "div_Vec3 ?r ?d = Finite un" ..
    with nz show "\<exists>un. div_Vec3 ?r ?d = Finite un
         \<and> ?res = Inr (Finite (dot ?a un + dot (?v - scale (dot ?v un) un) ?v / ?d))"
      by (simp add: res div_Real_nonzero)
  qed
  have fin: "?res \<noteq> Inr NaN"
  proof (cases "?d = 0")
    case True
    show ?thesis
    proof (cases "?sp = 0")
      case True
      with \<open>?d = 0\<close> show ?thesis by (simp add: res)
    next
      case False
      from div_Vec3_nonzero [OF False] obtain vn where "div_Vec3 ?v ?sp = Finite vn" ..
      with False \<open>?d = 0\<close> show ?thesis by (simp add: res)
    qed
  next
    case False
    from div_Vec3_nonzero [OF False] obtain un where "div_Vec3 ?r ?d = Finite un" ..
    with False show ?thesis by (simp add: res div_Real_nonzero)
  qed
  from a(1,2,3) b(1,2,3) rest moving apart fin show ?thesis by blast
qed

theorem distance_second_time_derivative_witness:
  "realizedTo exampleState Acceleration \<and> \<not> isSameMobilizedBody 1 2
   \<and> \<not> isSameMobilizedBody 0 3
   \<and> calcFixedPointToPointDistance2ndTimeDerivative exampleState 0 (Vec3 0 0 0) 3 (Vec3 0 0 0)
       = Inr (Finite 5)
   \<and> calcFixedPointToPointDistance2ndTimeDerivative exampleState 1 (Vec3 0 0 0) 2
        (Vec3 1 (- 2) 0) = Inr (Finite 3)
   \<and> calcFixedPointToPointDistance2ndTimeDerivative exampleState 1 (Vec3 1 0 0) 2 (Vec3 4 3 0)
       = Inr (Finite (491 / 125))"
proof -
  have d: "\<not> isSameMobilizedBody 1 2" "\<not> isSameMobilizedBody 0 3"
    by (simp_all add: isSameMobilizedBody_def)
  have atRest:
    "locateBodyPointOnGround exampleState 0 (Vec3 0 0 0) = Inr (Vec3 0 0 0)"
    "locateBodyPointOnGround exampleState 3 (Vec3 0 0 0) = Inr (Vec3 0 0 0)"
    "calcBodyFixedPointVelocityInGround exampleState 0 (Vec3 0 0 0) = Inr (Vec3 0 0 0)"
    "calcBodyFixedPointVelocityInGround exampleState 3 (Vec3 0 0 0) = Inr (Vec3 0 0 0)"
    "calcBodyFixedPointAccelerationInGround exampleState 0 (Vec3 0 0 0) = Inr (Vec3 0 0 0)"
    "calcBodyFixedPointAccelerationInGround exampleState 3 (Vec3 0 0 0) = Inr (Vec3 0 3 4)"
    by (simp_all add: example_eval)
  have coincident:
    "locateBodyPointOnGround exampleState (Suc 0) (Vec3 0 0 0) = Inr (Vec3 1 0 0)"
    "locateBodyPointOnGround exampleState 2 (Vec3 1 (- 2) 0) = Inr (Vec3 1 0 0)"
    "calcBodyFixedPointVelocityInGround exampleState (Suc 0) (Vec3 0 0 0) = Inr (Vec3 0 0 0)"
    "calcBodyFixedPointVelocityInGround exampleState 2 (Vec3 1 (- 2) 0) = Inr (Vec3 3 4 0)"
    "calcBodyFixedPointAccelerationInGround exampleState (Suc 0) (Vec3 0 0 0) = Inr (Vec3 0 0 0)"
    "calcBodyFixedPointAccelerationInGround exampleState 2 (Vec3 1 (- 2) 0) = Inr (Vec3 5 0 2)"
    by (simp_all add: example_eval)
  have apart:
    "locateBodyPointOnGround exampleState (Suc 0) (Vec3 1 0 0) = Inr (Vec3 1 1 0)"
    "locateBodyPointOnGround exampleState 2 (Vec3 4 3 0) = Inr (Vec3 4 5 0)"
    "calcBodyFixedPointVelocityInGround exampleState (Suc 0) (Vec3 1 0 0) = Inr (Vec3 (- 1) 0 0)"
    "calcBodyFixedPointVelocityInGround exampleState 2 (Vec3 4 3 0) = Inr (Vec3 3 4 0)"
    "calcBodyFixedPointAccelerationInGround exampleState (Suc 0) (Vec3 1 0 0) = Inr (Vec3 0 (- 1) 0)"
    "calcBodyFixedPointAccelerationInGround exampleState 2 (Vec3 4 3 0) = Inr (Vec3 5 0 2)"
    by (simp_all add: example_eval)
  have n: "norm_Vec3 (Vec3 0 0 0) = 0" "norm_Vec3 (Vec3 3 4 0) = 5" "norm_Vec3 (Vec3 0 3 4) = 5"
    by (simp_all add: norm_Vec3_def)
  from distance_second_time_derivative [OF exampleState_realized d(2), of "Vec3 0 0 0" "Vec3 0 0 0"]
  have c0: "calcFixedPointToPointDistance2ndTimeDerivative exampleState 0 (Vec3 0 0 0) 3
              (Vec3 0 0 0) = Inr (Finite 5)"
    by (simp add: atRest n)
  from distance_second_time_derivative [OF exampleState_realized d(1), of "Vec3 0 0 0" "Vec3 1 (- 2) 0"]
  have c1: "calcFixedPointToPointDistance2ndTimeDerivative exampleState 1 (Vec3 0 0 0) 2
              (Vec3 1 (- 2) 0) = Inr (Finite 3)"
    by (auto simp add: coincident n)
  from distance_second_time_derivative [OF exampleState_realized d(1), of "Vec3 1 0 0" "Vec3 4 3 0"]
  have c2: "calcFixedPointToPointDistance2ndTimeDerivative exampleState 1 (Vec3 1 0 0) 2
              (Vec3 4 3 0) = Inr (Finite (491 / 125))"
    by (auto simp add: apart n)
  from c0 c1 c2 d show ?thesis
    by (simp add: exampleState_realized)
qed

text \<open>
  C7. For a constraint with equation counts (mp, mv, ma): a vector returned by
  \<^verbatim>\<open>getPositionError\<close> has length mp; one returned by \<^verbatim>\<open>getVelocityError\<close> has length
  mp+mv, its first mp entries the time derivatives of the holonomic errors and the next mv
  the nonholonomic errors; those returned by \<^verbatim>\<open>getAccelerationError\<close> and
  \<^verbatim>\<open>getMultipliers\<close> have length mp+mv+ma. \<^verbatim>\<open>calcConstraintForcesFromMultipliers\<close>
  returns only for a multiplier vector of length mp+mv+ma, which it consumes as the
  holonomic multipliers, then the nonholonomic ones, then the acceleration-only ones; for
  another length it fails with \<open>DimensionMismatch\<close>. In a State realized to Acceleration
  all five operators return.
\<close>

theorem constraint_vector_layout:
  "(getPositionError c s = Inr perr \<longrightarrow> length perr = mp c)
   \<and> (getVelocityError c s = Inr verr \<longrightarrow>
        length verr = mp c + mv c
      \<and> (\<forall>i. i < mp c \<longrightarrow> verr ! i = calcPositionDotErrors c s (mp c) i)
      \<and> (\<forall>j. j < mv c \<longrightarrow> verr ! (mp c + j) = calcVelocityErrors c s (mv c) j))
   \<and> (getAccelerationError c s = Inr aerr \<longrightarrow> length aerr = mp c + mv c + ma c)
   \<and> (getMultipliers c s = Inr mults \<longrightarrow> length mults = mp c + mv c + ma c)
   \<and> (calcConstraintForcesFromMultipliers c s lambda = Inr forces \<longrightarrow>
        length lambda = mp c + mv c + ma c
      \<and> (\<exists>lp lv la. lambda = lp @ lv @ la
            \<and> length lp = mp c \<and> length lv = mv c \<and> length la = ma c
            \<and> forces = applyConstraintForces c s lp lv la))
   \<and> (realizedTo s Position \<longrightarrow> length lambda \<noteq> mp c + mv c + ma c \<longrightarrow>
        calcConstraintForcesFromMultipliers c s lambda = Inl DimensionMismatch)
   \<and> (realizedTo s Acceleration \<longrightarrow>
        (\<exists>p v a m. getPositionError c s = Inr p \<and> getVelocityError c s = Inr v
           \<and> getAccelerationError c s = Inr a \<and> getMultipliers c s = Inr m)
      \<and> (length lambda = mp c + mv c + ma c \<longrightarrow>
           (\<exists>f. calcConstraintForcesFromMultipliers c s lambda = Inr f)))"
proof (intro conjI impI allI)
  assume "getPositionError c s = Inr perr"
  then show "length perr = mp c"
    by (auto simp add: getPositionError_def fillSlots_def split: if_splits)
next
  assume v: "getVelocityError c s = Inr verr"
  then have verr: "verr = map (calcPositionDotErrors c s (mp c)) [0..<mp c]
                          @ map (calcVelocityErrors c s (mv c)) [0..<mv c]"
    by (auto simp add: getVelocityError_def fillSlots_def split: if_splits)
  show "length verr = mp c + mv c" by (simp add: verr)
  { fix i assume "i < mp c"
    then show "verr ! i = calcPositionDotErrors c s (mp c) i" by (simp add: verr nth_append) }
  { fix j assume "j < mv c"
    then show "verr ! (mp c + j) = calcVelocityErrors c s (mv c) j" by (simp add: verr nth_append) }
next
  assume "getAccelerationError c s = Inr aerr"
  then show "length aerr = mp c + mv c + ma c"
    by (auto simp add: getAccelerationError_def fillSlots_def split: if_splits)
next
  assume "getMultipliers c s = Inr mults"
  then show "length mults = mp c + mv c + ma c"
    by (auto simp add: getMultipliers_def fillSlots_def split: if_splits)
next
  assume f: "calcConstraintForcesFromMultipliers c s lambda = Inr forces"
  then have len: "length lambda = mp c + mv c + ma c"
    and forces: "forces = applyConstraintForces c s (take (mp c) lambda)
                   (take (mv c) (drop (mp c) lambda)) (drop (mp c + mv c) lambda)"
    by (auto simp add: calcConstraintForcesFromMultipliers_def split: if_splits)
  show "length lambda = mp c + mv c + ma c" by (rule len)
  from split_multipliers [OF len] forces
  show "\<exists>lp lv la. lambda = lp @ lv @ la
            \<and> length lp = mp c \<and> length lv = mv c \<and> length la = ma c
            \<and> forces = applyConstraintForces c s lp lv la"
    by blast
next
  assume "realizedTo s Position" "length lambda \<noteq> mp c + mv c + ma c"
  then show "calcConstraintForcesFromMultipliers c s lambda = Inl DimensionMismatch"
    by (simp add: calcConstraintForcesFromMultipliers_def)
next
  assume a: "realizedTo s Acceleration"
  then have "realizedTo s Velocity" "realizedTo s Position"
    by (simp_all add: realizedTo_def)
  with a show "\<exists>p v a m. getPositionError c s = Inr p \<and> getVelocityError c s = Inr v
           \<and> getAccelerationError c s = Inr a \<and> getMultipliers c s = Inr m"
    by (simp add: getPositionError_def getVelocityError_def getAccelerationError_def
        getMultipliers_def)
next
  assume a: "realizedTo s Acceleration" and "length lambda = mp c + mv c + ma c"
  moreover from a have "realizedTo s Position" by (simp add: realizedTo_def)
  ultimately show "\<exists>f. calcConstraintForcesFromMultipliers c s lambda = Inr f"
    by (simp add: calcConstraintForcesFromMultipliers_def)
qed

theorem constraint_vector_layout_witness:
  "getPositionError exampleConstraint exampleState = Inr [1]
   \<and> getVelocityError exampleConstraint exampleState = Inr [2, 4]
   \<and> getAccelerationError exampleConstraint exampleState = Inr [3, 5, 6]
   \<and> getMultipliers exampleConstraint exampleState = Inr [0, 1, 2]
   \<and> calcConstraintForcesFromMultipliers exampleConstraint exampleState [7, 8, 9]
       = Inr ([(0, 0)], [24, 8])
   \<and> calcConstraintForcesFromMultipliers exampleConstraint exampleState [7, 8]
       = Inl DimensionMismatch
   \<and> length [2, 4 :: real] = mp exampleConstraint + mv exampleConstraint"
proof -
  have c: "mp exampleConstraint = 1" "mv exampleConstraint = 1" "ma exampleConstraint = 1"
    by (simp_all add: exampleConstraint_def)
  have u: "[0..<3] = [0, 1, 2]" "[0..<Suc 0] = [0]"
    by (simp_all add: upt_rec)
  have e: "getPositionError exampleConstraint exampleState = Inr [1]"
    "getVelocityError exampleConstraint exampleState = Inr [2, 4]"
    "getAccelerationError exampleConstraint exampleState = Inr [3, 5, 6]"
    "getMultipliers exampleConstraint exampleState = Inr [0, 1, 2]"
    by (simp_all add: getPositionError_def getVelocityError_def getAccelerationError_def
        getMultipliers_def fillSlots_def exampleState_realized c u)
       (simp_all add: exampleConstraint_def)
  have f: "calcConstraintForcesFromMultipliers exampleConstraint exampleState [7, 8, 9]
       = Inr ([(0, 0)], [24, 8])"
    by (simp add: calcConstraintForcesFromMultipliers_def applyConstraintForces_def
        exampleState_realized c)
       (simp add: exampleConstraint_def eval_nat_numeral)
  show ?thesis
    using constraint_vector_layout [of exampleConstraint exampleState "[1]" "[2, 4]"
        "[3, 5, 6]" "[0, 1, 2]" "[7, 8]" "([(0, 0)], [24, 8])"] e f
    by (simp add: exampleState_realized c)
qed

end
